theory Spec2Isabelle
  imports Main "HOL-Library.Sublist" "HOL-Library.Word"
begin

section \<open>JavaScript strings as the operations use them\<close>

text \<open>
  A string is a list of characters (of \<^typ>\<open>char\<close>, which has 256 values: the patterns and
  the path prefix of the source are ASCII). \<open>s.includes(p)\<close> is the substring test: \<open>p\<close> occurs
  at some position of \<open>s\<close>. \<open>s.replace(/c/g, d)\<close> with a one-character pattern maps every
  occurrence of \<open>c\<close> to \<open>d\<close>; \<open>s.replace(/[^a-zA-Z0-9-]/g, '')\<close> keeps exactly the
  characters of the class.
\<close>

fun includes_str :: "string \<Rightarrow> string \<Rightarrow> bool" where
  "includes_str [] p = (p = [])"
| "includes_str (c # cs) p = (prefix p (c # cs) \<or> includes_str cs p)"

definition replace_all :: "char \<Rightarrow> char \<Rightarrow> string \<Rightarrow> string" where
  "replace_all c d s = map (\<lambda>x. if x = c then d else x) s"

definition in_class :: "char \<Rightarrow> bool" where
  "in_class c =
     (let n = (of_char c :: nat)
      in (97 \<le> n \<and> n \<le> 122) \<or> (65 \<le> n \<and> n \<le> 90) \<or> (48 \<le> n \<and> n \<le> 57) \<or> n = 45)"

definition strip_outside_class :: "string \<Rightarrow> string" where
  "strip_outside_class s = filter in_class s"

section \<open>Socket path resolver (SSHCreateSocketOp.#getSocketPath)\<close>

definition sanitize :: "string \<Rightarrow> string" where
  "sanitize host =
     strip_outside_class
       (replace_all (CHR '':'') (CHR ''-'')
         (replace_all (CHR ''.'') (CHR ''-'')
           (replace_all (CHR ''@'') (CHR ''-'') host)))"

text \<open>
  The field \<open>socketPath\<close> is \<open>string | undefined\<close>; \<open>if (this.socketPath)\<close> tests it for
  truthiness, and both \<open>undefined\<close> and the empty string are falsy.
\<close>

definition getSocketPath :: "string \<Rightarrow> string option \<Rightarrow> string" where
  "getSocketPath host socketPath =
     (case socketPath of
        Some p \<Rightarrow> if p \<noteq> [] then p else ''/tmp/sshit-ctrl-'' @ sanitize host
      | None \<Rightarrow> ''/tmp/sshit-ctrl-'' @ sanitize host)"

text \<open>
  The resolver as the specification words it: one pass that turns \<open>@\<close>, \<open>.\<close> and \<open>:\<close>
  into \<open>-\<close>, then a pass that drops whatever is not a letter, a digit or \<open>-\<close>.
\<close>

definition allowed_chars :: "char list" where
  "allowed_chars =
     ''ABCDEFGHIJKLMNOPQRSTUVWXYZabcdefghijklmnopqrstuvwxyz0123456789-''"

definition sanitize_spec :: "string \<Rightarrow> string" where
  "sanitize_spec h =
     filter (\<lambda>c. c \<in> set allowed_chars)
       (map (\<lambda>c. if c = CHR ''@'' \<or> c = CHR ''.'' \<or> c = CHR '':'' then CHR ''-'' else c) h)"

section \<open>Numbers in template literals\<close>

text \<open>
  Exit codes, timeouts and intervals are integers here; a template literal renders an
  integer of magnitude below \<open>10\<^sup>2\<^sup>1\<close> in decimal, with a leading \<open>-\<close> when it is
  negative. That range holds every exit code and every timeout a connection can use.
  A number beyond it, which JavaScript renders with an exponent, a fraction and \<open>NaN\<close> have
  no counterpart here: \<open>show_int\<close> stands for the rendering within the range only, and the
  results below do not rest on it elsewhere.
\<close>

definition digit_char :: "nat \<Rightarrow> char" where
  "digit_char d = ''0123456789'' ! d"

fun show_nat :: "nat \<Rightarrow> string" where
  "show_nat n =
     (if n < 10 then [digit_char n] else show_nat (n div 10) @ [digit_char (n mod 10)])"

definition show_int :: "int \<Rightarrow> string" where
  "show_int i = (if i < 0 then CHR ''-'' # show_nat (nat (- i)) else show_nat (nat i))"

section \<open>Results, failures and thrown values\<close>

text \<open>
  \<open>this.succeed(v)\<close> and \<open>this.fail(kind, debugData)\<close> of the operation base class build
  the two shapes of an outcome, \<open>{ok: true, value}\<close> and \<open>{ok: false, failure, debugData}\<close>.
  The failure kinds are string literals; each operation uses its own subset of them.
  Log lines (\<open>this.log\<close>, \<open>this.error\<close>) are not part of an outcome and are left out.
\<close>

datatype failure =
    AuthenticationFailed | HostNotFound | HostKeyVerificationFailed | ConnectionRefused
  | PermissionDenied | Timeout | UnknownError
  | SocketNotFound | SocketDead | ConnectionFailed
  | FileNotFound | RemoveFailed

datatype 'a outcome =
    is_ok: Success (val: 'a)
  | Failure (failure_of: failure) (debugData: string)

text \<open>
  A caught value is an \<open>Error\<close> object, with a message and possibly a \<open>code\<close> (as the
  file-system errors have), or anything else, given by what \<open>String(error)\<close> makes of it.
\<close>

datatype js_error =
    JsError (err_code: "string option") (err_message: string)
  | JsThrown string

fun exception_message :: "js_error \<Rightarrow> string" where
  "exception_message (JsError c m) = m"
| "exception_message (JsThrown s) = s"

text \<open>The state of an awaited promise: not settled (yet), resolved, or rejected.\<close>

datatype 'a promise = Pending | Resolved 'a | Rejected js_error

section \<open>Command execution service (sshit-internals.ts)\<close>

type_synonym buffer = "8 word list"

record ShellResult =
  exitCode :: int
  stdout :: string
  stderr :: string

record ShellResultBuffers =
  exitCode :: int
  stdoutBuffer :: buffer
  stderrBuffer :: buffer

text \<open>
  \<open>spawn(command, args, ...)\<close> is the runtime's. It either throws, then and there, or
  hands back a child process; the child is given by the events it emits, in order:
  \<open>data\<close> on its standard output or standard error, \<open>close\<close> with an exit code or
  \<open>null\<close>, \<open>error\<close> with an \<open>Error\<close> whose message is given. The call of \<open>spawn\<close> is
  the first statement of the promise's executor and nothing catches what it throws, so a
  throw of \<open>spawn\<close> rejects the promise with the thrown value. Otherwise the handlers
  push chunks on two arrays and call \<open>resolve\<close>; a promise keeps the first value it is
  resolved with. Decoding a buffer to
  text (\<open>toString\<close>) and encoding a message (\<open>Buffer.from\<close>) are the runtime's and are
  parameters. The files of Create (second copy), Check and Exit carry their own
  \<open>runCommand\<close>, which is the same text as the one of \<open>sshit-internals.ts\<close>.
\<close>

datatype proc_event =
    StdoutData buffer
  | StderrData buffer
  | CloseEvent "int option"
  | ErrorEvent string

datatype spawned = SpawnThrows js_error | Child "proc_event list"

record 'r collector =
  stdoutChunks :: "buffer list"
  stderrChunks :: "buffer list"
  settled :: "'r promise"

definition resolve :: "'r \<Rightarrow> 'r collector \<Rightarrow> 'r collector" where
  "resolve r s = (case settled s of Pending \<Rightarrow> s\<lparr>settled := Resolved r\<rparr> | _ \<Rightarrow> s)"

definition nullish_or :: "int option \<Rightarrow> int \<Rightarrow> int" where
  "nullish_or code d = (case code of Some c \<Rightarrow> c | None \<Rightarrow> d)"

fun runCommand_on :: "(buffer \<Rightarrow> string) \<Rightarrow> ShellResult collector \<Rightarrow> proc_event
    \<Rightarrow> ShellResult collector" where
  "runCommand_on toStr s (StdoutData chunk) = s\<lparr>stdoutChunks := stdoutChunks s @ [chunk]\<rparr>"
| "runCommand_on toStr s (StderrData chunk) = s\<lparr>stderrChunks := stderrChunks s @ [chunk]\<rparr>"
| "runCommand_on toStr s (CloseEvent code) =
     resolve \<lparr>ShellResult.exitCode = nullish_or code 1,
              stdout = toStr (concat (stdoutChunks s)),
              stderr = toStr (concat (stderrChunks s))\<rparr> s"
| "runCommand_on toStr s (ErrorEvent msg) =
     resolve \<lparr>ShellResult.exitCode = 1, stdout = [], stderr = msg\<rparr> s"

definition runCommand_child :: "(buffer \<Rightarrow> string) \<Rightarrow> proc_event list \<Rightarrow> ShellResult promise" where
  "runCommand_child toStr evs =
     settled (foldl (runCommand_on toStr)
                \<lparr>stdoutChunks = [], stderrChunks = [], settled = Pending\<rparr> evs)"

definition runCommand :: "(string \<Rightarrow> string list \<Rightarrow> spawned) \<Rightarrow> (buffer \<Rightarrow> string)
    \<Rightarrow> string \<Rightarrow> string list \<Rightarrow> ShellResult promise" where
  "runCommand spawn toStr command args =
     (case spawn command args of
        SpawnThrows x \<Rightarrow> Rejected x
      | Child evs \<Rightarrow> runCommand_child toStr evs)"

fun runCommandBuffers_on :: "(string \<Rightarrow> buffer) \<Rightarrow> ShellResultBuffers collector \<Rightarrow> proc_event
    \<Rightarrow> ShellResultBuffers collector" where
  "runCommandBuffers_on fromStr s (StdoutData chunk) = s\<lparr>stdoutChunks := stdoutChunks s @ [chunk]\<rparr>"
| "runCommandBuffers_on fromStr s (StderrData chunk) = s\<lparr>stderrChunks := stderrChunks s @ [chunk]\<rparr>"
| "runCommandBuffers_on fromStr s (CloseEvent code) =
     resolve \<lparr>ShellResultBuffers.exitCode = nullish_or code 1,
              stdoutBuffer = concat (stdoutChunks s),
              stderrBuffer = concat (stderrChunks s)\<rparr> s"
| "runCommandBuffers_on fromStr s (ErrorEvent msg) =
     resolve \<lparr>ShellResultBuffers.exitCode = 1, stdoutBuffer = [], stderrBuffer = fromStr msg\<rparr> s"

definition runCommandBuffers_child :: "(string \<Rightarrow> buffer) \<Rightarrow> proc_event list
    \<Rightarrow> ShellResultBuffers promise" where
  "runCommandBuffers_child fromStr evs =
     settled (foldl (runCommandBuffers_on fromStr)
                \<lparr>stdoutChunks = [], stderrChunks = [], settled = Pending\<rparr> evs)"

definition runCommandBuffers :: "(string \<Rightarrow> string list \<Rightarrow> spawned) \<Rightarrow> (string \<Rightarrow> buffer)
    \<Rightarrow> string \<Rightarrow> string list \<Rightarrow> ShellResultBuffers promise" where
  "runCommandBuffers spawn fromStr command args =
     (case spawn command args of
        SpawnThrows x \<Rightarrow> Rejected x
      | Child evs \<Rightarrow> runCommandBuffers_child fromStr evs)"

section \<open>The world the operations run in\<close>

text \<open>
  An operation reaches outside through four calls: \<open>stat\<close> and \<open>unlink\<close> of the file
  system, the execution layer (text or buffer variant), and the clock. What each call
  answers is the environment's choice and may depend on everything done so far, so the
  environment is a family of answers indexed by the history of calls, and an operation
  returns the history extended by its own calls. \<open>None\<close> from \<open>stat\<close> or \<open>unlink\<close> means
  the call succeeded; otherwise it threw the given value. The execution layer answers
  with the state of the promise the operation awaits; an operation that awaits a promise
  which is never settled does not return, which is the result \<open>None\<close>.
\<close>

datatype syscall =
    Stat string
  | Unlink string
  | RunCommand string "string list"
  | RunCommandBuffers string "string list"
  | Now

record env =
  stat_reply :: "syscall list \<Rightarrow> string \<Rightarrow> js_error option"
  unlink_reply :: "syscall list \<Rightarrow> string \<Rightarrow> js_error option"
  runCommand_reply :: "syscall list \<Rightarrow> string \<Rightarrow> string list \<Rightarrow> ShellResult promise"
  runCommandBuffers_reply ::
    "syscall list \<Rightarrow> string \<Rightarrow> string list \<Rightarrow> ShellResultBuffers promise"
  toString :: "buffer \<Rightarrow> string"
  now_reply :: "syscall list \<Rightarrow> string"

section \<open>Create (SSHCreateSocketOp)\<close>

record SocketInfo =
  path :: string
  host :: string
  createdAt :: string

text \<open>The chain of tests on stderr in \<open>src/SSHCreateSocketOp.ts\<close>, in its order.\<close>

definition SSHCreateSocketOp_classify :: "int \<Rightarrow> string \<Rightarrow> SocketInfo outcome" where
  "SSHCreateSocketOp_classify code err =
     (if includes_str err ''Permission denied (publickey'' then Failure PermissionDenied err
      else if includes_str err ''Permission denied'' \<or> includes_str err ''Authentication failed''
        then Failure AuthenticationFailed err
      else if includes_str err ''REMOTE HOST IDENTIFICATION HAS CHANGED''
              \<or> includes_str err ''Host key verification failed''
        then Failure HostKeyVerificationFailed err
      else if includes_str err ''Could not resolve hostname''
              \<or> includes_str err ''Name or service not known''
        then Failure HostNotFound err
      else if includes_str err ''Connection refused''
              \<or> includes_str err ''Network is unreachable''
              \<or> includes_str err ''No route to host''
              \<or> includes_str err ''Broken pipe''
        then Failure ConnectionRefused err
      else if includes_str err ''Operation timed out'' \<or> includes_str err ''Connection timed out''
        then Failure Timeout err
      else Failure UnknownError (''Exit code '' @ show_int code @ '': '' @ err))"

text \<open>The chain of the second copy of the operation, \<open>src/unnamed/part_000\<close>, in its order.\<close>

definition SSHCreateSocketOp_classify_part_000 :: "int \<Rightarrow> string \<Rightarrow> SocketInfo outcome" where
  "SSHCreateSocketOp_classify_part_000 code err =
     (if includes_str err ''Permission denied'' \<or> includes_str err ''Authentication failed''
        then Failure AuthenticationFailed err
      else if includes_str err ''REMOTE HOST IDENTIFICATION HAS CHANGED''
              \<or> includes_str err ''Host key verification failed''
        then Failure HostKeyVerificationFailed err
      else if includes_str err ''Could not resolve hostname''
              \<or> includes_str err ''Name or service not known''
        then Failure HostNotFound err
      else if includes_str err ''Connection refused''
        then Failure ConnectionRefused err
      else if includes_str err ''Operation timed out'' \<or> includes_str err ''Connection timed out''
        then Failure Timeout err
      else if includes_str err ''Permission denied (publickey''
        then Failure PermissionDenied err
      else Failure UnknownError (''Exit code '' @ show_int code @ '': '' @ err))"

definition SSHCreateSocketOp_args :: "string \<Rightarrow> int \<Rightarrow> int \<Rightarrow> string \<Rightarrow> string list" where
  "SSHCreateSocketOp_args sock connectTimeout serverAliveInterval host_id =
     [''-M'', ''-S'', sock, ''-fN'',
      ''-o'', ''ConnectTimeout='' @ show_int connectTimeout,
      ''-o'', ''ServerAliveInterval='' @ show_int serverAliveInterval,
      ''-o'', ''StrictHostKeyChecking=accept-new'',
      host_id]"

text \<open>
  \<open>run\<close> of both copies, with the chain of tests as a parameter: the two files differ in
  the chain only (and in where \<open>runCommand\<close> is written, which is the same text).
\<close>

definition SSHCreateSocketOp_run_with ::
  "(int \<Rightarrow> string \<Rightarrow> SocketInfo outcome) \<Rightarrow> env \<Rightarrow> string \<Rightarrow> string option \<Rightarrow> int \<Rightarrow> int
     \<Rightarrow> syscall list \<Rightarrow> SocketInfo outcome option \<times> syscall list" where
  "SSHCreateSocketOp_run_with classify e host_id socketPath connectTimeout serverAliveInterval h =
     (let sock = getSocketPath host_id socketPath;
          args = SSHCreateSocketOp_args sock connectTimeout serverAliveInterval host_id;
          h1 = h @ [RunCommand ''ssh'' args]
      in case runCommand_reply e h ''ssh'' args of
           Pending \<Rightarrow> (None, h1)
         | Rejected x \<Rightarrow> (Some (Failure UnknownError (exception_message x)), h1)
         | Resolved result \<Rightarrow>
             if ShellResult.exitCode result = 0
             then (Some (Success \<lparr>path = sock, host = host_id, createdAt = now_reply e h1\<rparr>),
                   h1 @ [Now])
             else (Some (classify (ShellResult.exitCode result) (stderr result)), h1))"

definition SSHCreateSocketOp_run ::
  "env \<Rightarrow> string \<Rightarrow> string option \<Rightarrow> int \<Rightarrow> int \<Rightarrow> syscall list
     \<Rightarrow> SocketInfo outcome option \<times> syscall list" where
  "SSHCreateSocketOp_run = SSHCreateSocketOp_run_with SSHCreateSocketOp_classify"

definition SSHCreateSocketOp_run_part_000 ::
  "env \<Rightarrow> string \<Rightarrow> string option \<Rightarrow> int \<Rightarrow> int \<Rightarrow> syscall list
     \<Rightarrow> SocketInfo outcome option \<times> syscall list" where
  "SSHCreateSocketOp_run_part_000 = SSHCreateSocketOp_run_with SSHCreateSocketOp_classify_part_000"

section \<open>Check (SSHCheckSocketOp)\<close>

datatype socket_status = alive | dead | not_found

definition SSHCheckSocketOp_args :: "string \<Rightarrow> string \<Rightarrow> string list" where
  "SSHCheckSocketOp_args sock host_id = [''-S'', sock, ''-O'', ''check'', host_id]"

definition SSHCheckSocketOp_run ::
  "env \<Rightarrow> string \<Rightarrow> string \<Rightarrow> syscall list \<Rightarrow> socket_status outcome option \<times> syscall list" where
  "SSHCheckSocketOp_run e sock host_id h =
     (let h1 = h @ [Stat sock] in
      case stat_reply e h sock of
        Some x \<Rightarrow> (Some (Failure SocketNotFound (''Control socket does not exist: '' @ sock)), h1)
      | None \<Rightarrow>
          (let args = SSHCheckSocketOp_args sock host_id;
               h2 = h1 @ [RunCommand ''ssh'' args]
           in case runCommand_reply e h1 ''ssh'' args of
                Pending \<Rightarrow> (None, h2)
              | Rejected x \<Rightarrow> (Some (Failure UnknownError (exception_message x)), h2)
              | Resolved result \<Rightarrow>
                  if ShellResult.exitCode result = 0 then (Some (Success alive), h2)
                  else (Some (Success dead), h2)))"

section \<open>Exec (SSHExecOp)\<close>

record ExecResult =
  exitCode :: int
  stdout :: string
  stderr :: string
  stdoutBuffer :: buffer
  stderrBuffer :: buffer

definition SSHExecOp_classify255 :: "string \<Rightarrow> ExecResult outcome" where
  "SSHExecOp_classify255 err =
     (if includes_str err ''No such file'' \<or> includes_str err ''no such file''
        then Failure SocketNotFound err
      else if includes_str err ''Connection refused'' \<or> includes_str err ''Connection reset''
        then Failure ConnectionFailed err
      else if includes_str err ''Operation timed out'' \<or> includes_str err ''Connection timed out''
        then Failure Timeout err
      else if includes_str err ''Control socket'' \<and> includes_str err ''dead''
        then Failure SocketDead err
      else Failure ConnectionFailed (''Exit 255: '' @ err))"

definition SSHExecOp_args :: "string \<Rightarrow> string \<Rightarrow> string \<Rightarrow> int \<Rightarrow> string list" where
  "SSHExecOp_args sock host_id command timeoutSeconds =
     [''-S'', sock, ''-o'', ''ControlMaster=no'',
      ''-o'', ''ConnectTimeout='' @ show_int timeoutSeconds, host_id, command]"

definition SSHExecOp_run ::
  "env \<Rightarrow> string \<Rightarrow> string \<Rightarrow> string \<Rightarrow> int \<Rightarrow> syscall list
     \<Rightarrow> ExecResult outcome option \<times> syscall list" where
  "SSHExecOp_run e sock host_id command timeoutSeconds h =
     (let h1 = h @ [Stat sock] in
      case stat_reply e h sock of
        Some x \<Rightarrow> (Some (Failure SocketNotFound (''Control socket does not exist: '' @ sock)), h1)
      | None \<Rightarrow>
          (let args = SSHExecOp_args sock host_id command timeoutSeconds;
               h2 = h1 @ [RunCommandBuffers ''ssh'' args]
           in case runCommandBuffers_reply e h1 ''ssh'' args of
                Pending \<Rightarrow> (None, h2)
              | Rejected x \<Rightarrow> (Some (Failure UnknownError (exception_message x)), h2)
              | Resolved result \<Rightarrow>
                  (let out = toString e (ShellResultBuffers.stdoutBuffer result);
                       err = toString e (ShellResultBuffers.stderrBuffer result)
                   in if ShellResultBuffers.exitCode result = 255
                      then (Some (SSHExecOp_classify255 err), h2)
                      else (Some (Success \<lparr>exitCode = ShellResultBuffers.exitCode result,
                                            stdout = out, stderr = err,
                                            stdoutBuffer = ShellResultBuffers.stdoutBuffer result,
                                            stderrBuffer = ShellResultBuffers.stderrBuffer result\<rparr>),
                            h2))))"

section \<open>Exit (SSHExitSocketOp)\<close>

definition SSHExitSocketOp_args :: "string \<Rightarrow> string \<Rightarrow> string list" where
  "SSHExitSocketOp_args sock host_id = [''-S'', sock, ''-O'', ''exit'', host_id]"

definition SSHExitSocketOp_run ::
  "env \<Rightarrow> string \<Rightarrow> string \<Rightarrow> syscall list \<Rightarrow> bool outcome option \<times> syscall list" where
  "SSHExitSocketOp_run e sock host_id h =
     (let h1 = h @ [Stat sock] in
      case stat_reply e h sock of
        Some x \<Rightarrow> (Some (Failure SocketNotFound (''Control socket does not exist: '' @ sock)), h1)
      | None \<Rightarrow>
          (let args = SSHExitSocketOp_args sock host_id;
               h2 = h1 @ [RunCommand ''ssh'' args]
           in case runCommand_reply e h1 ''ssh'' args of
                Pending \<Rightarrow> (None, h2)
              | Rejected x \<Rightarrow> (Some (Failure UnknownError (exception_message x)), h2)
              | Resolved result \<Rightarrow> (Some (Success (ShellResult.exitCode result = 0)), h2)))"

section \<open>RemoveSocketFile (RemoveSocketFileOp)\<close>

definition RemoveSocketFileOp_run ::
  "env \<Rightarrow> string \<Rightarrow> syscall list \<Rightarrow> bool outcome \<times> syscall list" where
  "RemoveSocketFileOp_run e sock h =
     (let h1 = h @ [Unlink sock] in
      case unlink_reply e h sock of
        None \<Rightarrow> (Success True, h1)
      | Some (JsError c m) \<Rightarrow>
          if c = Some ''ENOENT'' then (Failure FileNotFound (''File does not exist: '' @ sock), h1)
          else if c = Some ''EACCES'' \<or> c = Some ''EPERM''
            then (Failure PermissionDenied (''Permission denied: '' @ sock), h1)
          else (Failure UnknownError m, h1)
      | Some (JsThrown t) \<Rightarrow> (Failure UnknownError t, h1))"

section \<open>TearDown (TearDownSocketOp)\<close>

text \<open>
  Exit and RemoveSocketFile return outcomes and raise nothing, so the outer \<open>catch\<close> of
  TearDown has nothing to catch; the same holds for Validate over Check below.
\<close>

record TearDownResult =
  exitedCleanly :: bool
  fileRemoved :: bool

definition TearDownSocketOp_run ::
  "env \<Rightarrow> string \<Rightarrow> string \<Rightarrow> syscall list \<Rightarrow> TearDownResult outcome option \<times> syscall list" where
  "TearDownSocketOp_run e sock host_id h =
     (case SSHExitSocketOp_run e sock host_id h of
        (None, h1) \<Rightarrow> (None, h1)
      | (Some exitOutcome, h1) \<Rightarrow>
          (let cleanly = (case exitOutcome of Success v \<Rightarrow> v | Failure f d \<Rightarrow> False) in
           if \<not> is_ok exitOutcome \<and> failure_of exitOutcome = SocketNotFound
           then (Some (Success \<lparr>exitedCleanly = False, fileRemoved = False\<rparr>), h1)
           else
             (case RemoveSocketFileOp_run e sock h1 of
                (removeOutcome, h2) \<Rightarrow>
                  if \<not> is_ok removeOutcome
                  then (if failure_of removeOutcome = FileNotFound
                        then (Some (Success \<lparr>exitedCleanly = cleanly, fileRemoved = False\<rparr>), h2)
                        else (Some (Failure RemoveFailed (debugData removeOutcome)), h2))
                  else (Some (Success \<lparr>exitedCleanly = cleanly, fileRemoved = True\<rparr>), h2))))"

section \<open>Validate (ValidateSocketOp)\<close>

record ValidationResult =
  valid :: bool
  status :: socket_status

definition ValidateSocketOp_run ::
  "env \<Rightarrow> string \<Rightarrow> string \<Rightarrow> syscall list \<Rightarrow> ValidationResult outcome option \<times> syscall list" where
  "ValidateSocketOp_run e sock host_id h =
     (case SSHCheckSocketOp_run e sock host_id h of
        (None, h1) \<Rightarrow> (None, h1)
      | (Some checkOutcome, h1) \<Rightarrow>
          if \<not> is_ok checkOutcome
          then (if failure_of checkOutcome = SocketNotFound
                then (Some (Success \<lparr>valid = False, status = not_found\<rparr>), h1)
                else (Some (Failure UnknownError (debugData checkOutcome)), h1))
          else (let st = val checkOutcome
                in (Some (Success \<lparr>valid = (st = alive), status = st\<rparr>), h1)))"

section \<open>The specification's reading of the classifications\<close>

text \<open>
  The specification describes a classification as an ordered list of pairs of a predicate
  on stderr and a failure kind, the first pair whose predicate holds giving the kind.
  The lists below carry the patterns of the source in the source's order; the theorems
  compare them with the chains of tests above.
\<close>

fun first_match :: "((string \<Rightarrow> bool) \<times> failure) list \<Rightarrow> string \<Rightarrow> failure option" where
  "first_match [] err = None"
| "first_match ((p, k) # rules) err = (if p err then Some k else first_match rules err)"

definition any_of :: "string list \<Rightarrow> string \<Rightarrow> bool" where
  "any_of pats err = list_ex (includes_str err) pats"

definition all_of :: "string list \<Rightarrow> string \<Rightarrow> bool" where
  "all_of pats err = list_all (includes_str err) pats"

definition create_rules :: "((string \<Rightarrow> bool) \<times> failure) list" where
  "create_rules =
     [(any_of [''Permission denied (publickey''], PermissionDenied),
      (any_of [''Permission denied'', ''Authentication failed''], AuthenticationFailed),
      (any_of [''REMOTE HOST IDENTIFICATION HAS CHANGED'', ''Host key verification failed''],
         HostKeyVerificationFailed),
      (any_of [''Could not resolve hostname'', ''Name or service not known''], HostNotFound),
      (any_of [''Connection refused'', ''Network is unreachable'', ''No route to host'',
               ''Broken pipe''], ConnectionRefused),
      (any_of [''Operation timed out'', ''Connection timed out''], Timeout)]"

definition exec_rules :: "((string \<Rightarrow> bool) \<times> failure) list" where
  "exec_rules =
     [(any_of [''No such file'', ''no such file''], SocketNotFound),
      (any_of [''Connection refused'', ''Connection reset''], ConnectionFailed),
      (any_of [''Operation timed out'', ''Connection timed out''], Timeout),
      (all_of [''Control socket'', ''dead''], SocketDead)]"

section \<open>Reading a child's events\<close>

fun is_terminal :: "proc_event \<Rightarrow> bool" where
  "is_terminal (CloseEvent code) = True"
| "is_terminal (ErrorEvent msg) = True"
| "is_terminal (StdoutData chunk) = False"
| "is_terminal (StderrData chunk) = False"

fun stdout_data :: "proc_event list \<Rightarrow> buffer" where
  "stdout_data [] = []"
| "stdout_data (StdoutData chunk # evs) = chunk @ stdout_data evs"
| "stdout_data (ev # evs) = stdout_data evs"

fun stderr_data :: "proc_event list \<Rightarrow> buffer" where
  "stderr_data [] = []"
| "stderr_data (StderrData chunk # evs) = chunk @ stderr_data evs"
| "stderr_data (ev # evs) = stderr_data evs"

text \<open>A decoder and an encoder for bytes that are ASCII, used in the examples.\<close>

definition ascii_toString :: "buffer \<Rightarrow> string" where
  "ascii_toString b = map (\<lambda>w. char_of (unat w)) b"

definition ascii_fromString :: "string \<Rightarrow> buffer" where
  "ascii_fromString t = map (\<lambda>c. of_nat (of_char c)) t"

section \<open>Example environments\<close>

text \<open>
  Three ways for \<open>spawn\<close> to behave: it hands back a child with given events whatever
  the command; it throws a given value whatever the command; it throws for an empty
  command name, which names no program, and hands back a child otherwise.
\<close>

definition spawn_child :: "proc_event list \<Rightarrow> string \<Rightarrow> string list \<Rightarrow> spawned" where
  "spawn_child evs command args = Child evs"

definition spawn_throws :: "js_error \<Rightarrow> string \<Rightarrow> string list \<Rightarrow> spawned" where
  "spawn_throws x command args = SpawnThrows x"

definition strict_spawn :: "proc_event list \<Rightarrow> string \<Rightarrow> string list \<Rightarrow> spawned" where
  "strict_spawn evs command args =
     (if command = []
      then SpawnThrows (JsError (Some ''ERR_INVALID_ARG_VALUE'') ''The argument file cannot be empty'')
      else Child evs)"

text \<open>
  Concrete worlds for the examples. In \<open>example_env\<close> the socket file exists, the master
  answers, and a remote command prints \<open>hi\<close> and exits with code 3; the others change
  one thing each: the file is missing; the master is dead and the client exits with 255;
  the file has vanished by the time it is unlinked; unlinking is not permitted; \<open>spawn\<close>
  throws, so the execution layer rejects; the server refuses the public key. The replies
  of the execution layer are the results of \<open>runCommand\<close> and \<open>runCommandBuffers\<close>.
\<close>

definition example_env :: env where
  "example_env =
     \<lparr>stat_reply = (\<lambda>h p. None),
      unlink_reply = (\<lambda>h p. None),
      runCommand_reply = (\<lambda>h. runCommand (spawn_child [CloseEvent (Some 0)]) ascii_toString),
      runCommandBuffers_reply =
        (\<lambda>h. runCommandBuffers
           (spawn_child [StdoutData (ascii_fromString ''hi''), CloseEvent (Some 3)])
           ascii_fromString),
      toString = ascii_toString,
      now_reply = (\<lambda>h. ''2026-01-01T00:00:00.000Z'')\<rparr>"

definition missing_env :: env where
  "missing_env =
     example_env
       \<lparr>stat_reply := (\<lambda>h p. Some (JsError (Some ''ENOENT'') ''ENOENT: no such file or directory'')),
        unlink_reply := (\<lambda>h p. Some (JsError (Some ''ENOENT'') ''ENOENT: no such file or directory''))\<rparr>"

definition dead_env :: env where
  "dead_env =
     example_env
       \<lparr>runCommand_reply :=
          (\<lambda>h. runCommand
             (spawn_child
                [StderrData (ascii_fromString ''Control socket connect(/tmp/s): Connection refused''),
                 CloseEvent (Some 255)])
             ascii_toString),
        runCommandBuffers_reply :=
          (\<lambda>h. runCommandBuffers
             (spawn_child
                [StderrData (ascii_fromString ''Control socket connect(/tmp/s): Connection refused''),
                 CloseEvent (Some 255)])
             ascii_fromString)\<rparr>"

definition vanished_env :: env where
  "vanished_env =
     example_env
       \<lparr>unlink_reply := (\<lambda>h p. Some (JsError (Some ''ENOENT'') ''ENOENT: no such file or directory''))\<rparr>"

definition protected_env :: env where
  "protected_env =
     example_env
       \<lparr>unlink_reply := (\<lambda>h p. Some (JsError (Some ''EACCES'') ''EACCES: permission denied''))\<rparr>"

definition rejecting_env :: env where
  "rejecting_env =
     example_env
       \<lparr>runCommand_reply :=
          (\<lambda>h. runCommand (spawn_throws (JsError None ''spawn failed'')) ascii_toString)\<rparr>"

definition publickey_env :: env where
  "publickey_env =
     example_env
       \<lparr>runCommand_reply :=
          (\<lambda>h. runCommand
             (spawn_child
                [StderrData (ascii_fromString ''user@host: Permission denied (publickey,password).''),
                 CloseEvent (Some 255)])
             ascii_toString)\<rparr>"

section \<open>Facts about strings\<close>

lemma includes_str_sublist: "includes_str s p = sublist p s"
  by (induction s) (simp_all add: sublist_Cons_right)

lemma includes_str_appendD: "includes_str s (p @ q) \<Longrightarrow> includes_str s p"
  unfolding includes_str_sublist sublist_def by (metis append.assoc)

lemma publickey_is_denied:
  "includes_str s ''Permission denied (publickey'' \<Longrightarrow> includes_str s ''Permission denied''"
  using includes_str_appendD [of s "''Permission denied''" "'' (publickey''"] by simp

lemma in_class_nat: "in_class c = ((of_char c :: nat) \<in> set (map of_char allowed_chars))"
  unfolding in_class_def Let_def allowed_chars_def
  by simp arith

lemma in_class_allowed: "in_class c = (c \<in> set allowed_chars)"
proof -
  have "(c \<in> set allowed_chars) = ((of_char c :: nat) \<in> of_char ` set allowed_chars)"
    by (auto simp: inj_image_mem_iff inj_on_def)
  then show ?thesis
    by (simp add: in_class_nat)
qed

lemma replace_three:
  "replace_all (CHR '':'') (CHR ''-'')
     (replace_all (CHR ''.'') (CHR ''-'') (replace_all (CHR ''@'') (CHR ''-'') h)) =
   map (\<lambda>c. if c = CHR ''@'' \<or> c = CHR ''.'' \<or> c = CHR '':'' then CHR ''-'' else c) h"
  by (induction h) (simp_all add: replace_all_def)

lemma sanitize_is_spec: "sanitize h = sanitize_spec h"
proof -
  have "in_class = (\<lambda>c. c \<in> set allowed_chars)"
    by (rule ext) (rule in_class_allowed)
  then show ?thesis
    by (simp add: sanitize_def sanitize_spec_def strip_outside_class_def replace_three)
qed

section \<open>The socket path\<close>

text \<open>
  C2. With no explicit socket path, the path is the fixed prefix followed by the host
  with every \<open>@\<close>, \<open>.\<close> and \<open>:\<close> turned into \<open>-\<close> and every other character outside
  letters, digits and \<open>-\<close> removed. The resolver reads nothing but the host, so two calls
  with the same host give the same path; what follows the prefix consists of letters,
  digits and \<open>-\<close> only; \<open>user@10.0.0.3\<close> gives \<open>/tmp/sshit-ctrl-user-10-0-0-3\<close>, and the
  empty host gives the bare prefix.
\<close>

theorem getSocketPath_derived:
  "getSocketPath h None = ''/tmp/sshit-ctrl-'' @ sanitize_spec h
   \<and> list_all (\<lambda>c. c \<in> set allowed_chars)
         (drop (length ''/tmp/sshit-ctrl-'') (getSocketPath h None))
   \<and> getSocketPath ''user@10.0.0.3'' None = ''/tmp/sshit-ctrl-user-10-0-0-3''
   \<and> getSocketPath [] None = ''/tmp/sshit-ctrl-''"
proof -
  have a: "getSocketPath h None = ''/tmp/sshit-ctrl-'' @ sanitize_spec h" for h
    by (simp add: getSocketPath_def sanitize_is_spec)
  have b: "list_all (\<lambda>c. c \<in> set allowed_chars) (sanitize_spec h)"
    by (simp add: sanitize_spec_def list_all_iff)
  have c: "sanitize_spec ''user@10.0.0.3'' = ''user-10-0-0-3''"
    by (simp add: sanitize_spec_def allowed_chars_def)
  have d: "sanitize_spec [] = []"
    by (simp add: sanitize_spec_def)
  show ?thesis
    using b by (simp add: a c d)
qed

text \<open>
  C9. An explicit socket path that is the empty string is ignored: the path is the one
  derived from the host, and Create then runs exactly as it does with no explicit path.
  An explicit path is used as given only when it is not empty.
\<close>

theorem getSocketPath_empty_override:
  "getSocketPath h (Some p) = (if p = [] then ''/tmp/sshit-ctrl-'' @ sanitize_spec h else p)
   \<and> getSocketPath h (Some []) = getSocketPath h None
   \<and> SSHCreateSocketOp_run e h (Some []) ct sai hist = SSHCreateSocketOp_run e h None ct sai hist"
  by (simp add: getSocketPath_def sanitize_is_spec SSHCreateSocketOp_run_def
      SSHCreateSocketOp_run_with_def)

section \<open>How the command execution service settles\<close>

text \<open>Facts shared by the text and the buffer variant.\<close>

lemma resolve_simps:
  "settled (resolve r s) = (case settled s of Pending \<Rightarrow> Resolved r | p \<Rightarrow> p)"
  "stdoutChunks (resolve r s) = stdoutChunks s"
  "stderrChunks (resolve r s) = stderrChunks s"
  by (simp_all add: resolve_def split: promise.splits)

lemma stdout_data_append: "stdout_data (xs @ ys) = stdout_data xs @ stdout_data ys"
  by (induction xs rule: stdout_data.induct) simp_all

lemma stderr_data_append: "stderr_data (xs @ ys) = stderr_data xs @ stderr_data ys"
  by (induction xs rule: stderr_data.induct) simp_all

lemma split_at_first_terminal:
  "list_ex is_terminal evs \<Longrightarrow> \<exists>pre ev rest. evs = pre @ ev # rest \<and> \<not> list_ex is_terminal pre \<and> is_terminal ev"
proof (induction evs)
  case Nil
  then show ?case by simp
next
  case (Cons a evs)
  show ?case
  proof (cases "is_terminal a")
    case True
    then have "a # evs = [] @ a # evs \<and> \<not> list_ex is_terminal [] \<and> is_terminal a" by simp
    then show ?thesis by blast
  next
    case False
    with Cons obtain pre ev rest where "evs = pre @ ev # rest" "\<not> list_ex is_terminal pre" "is_terminal ev"
      by auto
    with False have "a # evs = (a # pre) @ ev # rest \<and> \<not> list_ex is_terminal (a # pre) \<and> is_terminal ev"
      by simp
    then show ?thesis by blast
  qed
qed

text \<open>The text variant, \<open>runCommand\<close>.\<close>

lemma runCommand_on_settled:
  "settled (runCommand_on toStr s ev) =
     (case settled s of
        Pending \<Rightarrow>
          (case ev of
             CloseEvent code \<Rightarrow>
               Resolved \<lparr>ShellResult.exitCode = nullish_or code 1,
                         stdout = toStr (concat (stdoutChunks s)),
                         stderr = toStr (concat (stderrChunks s))\<rparr>
           | ErrorEvent msg \<Rightarrow> Resolved \<lparr>ShellResult.exitCode = 1, stdout = [], stderr = msg\<rparr>
           | _ \<Rightarrow> Pending)
      | p \<Rightarrow> p)"
  by (cases ev) (simp_all add: resolve_simps split: promise.splits)

lemma runCommand_on_chunks:
  "concat (stdoutChunks (runCommand_on toStr s ev)) = concat (stdoutChunks s) @ stdout_data [ev]"
  "concat (stderrChunks (runCommand_on toStr s ev)) = concat (stderrChunks s) @ stderr_data [ev]"
  by (cases ev; simp add: resolve_simps)+

lemma runCommand_fold_chunks:
  "concat (stdoutChunks (foldl (runCommand_on toStr) s evs)) = concat (stdoutChunks s) @ stdout_data evs
   \<and> concat (stderrChunks (foldl (runCommand_on toStr) s evs)) = concat (stderrChunks s) @ stderr_data evs"
proof (induction evs arbitrary: s)
  case Nil
  show ?case by simp
next
  case (Cons ev evs)
  have "stdout_data (ev # evs) = stdout_data [ev] @ stdout_data evs"
    using stdout_data_append [of "[ev]" evs] by simp
  moreover have "stderr_data (ev # evs) = stderr_data [ev] @ stderr_data evs"
    using stderr_data_append [of "[ev]" evs] by simp
  ultimately show ?case
    using Cons.IH [of "runCommand_on toStr s ev"] by (simp add: runCommand_on_chunks)
qed

lemma runCommand_fold_settled_keep:
  "settled s \<noteq> Pending \<Longrightarrow> settled (foldl (runCommand_on toStr) s evs) = settled s"
  by (induction evs arbitrary: s)
     (simp_all add: runCommand_on_settled del: runCommand_on.simps split: promise.splits)

lemma runCommand_fold_pending:
  "\<not> list_ex is_terminal evs \<Longrightarrow> settled (foldl (runCommand_on toStr) s evs) = settled s"
proof (induction evs arbitrary: s)
  case Nil
  show ?case by simp
next
  case (Cons ev evs)
  then show ?case
    by (cases ev) (simp_all add: runCommand_on_settled del: runCommand_on.simps split: promise.splits)
qed

lemma runCommand_child_first_terminal:
  assumes "\<not> list_ex is_terminal pre" and "is_terminal ev"
  shows "runCommand_child toStr (pre @ ev # rest) =
           settled (runCommand_on toStr
              (foldl (runCommand_on toStr) \<lparr>stdoutChunks = [], stderrChunks = [], settled = Pending\<rparr> pre) ev)"
proof -
  let ?s = "foldl (runCommand_on toStr) \<lparr>stdoutChunks = [], stderrChunks = [], settled = Pending\<rparr> pre"
  have p: "settled ?s = Pending"
    using runCommand_fold_pending [OF assms(1)] by simp
  have "settled (runCommand_on toStr ?s ev) \<noteq> Pending"
    using assms(2) p by (cases ev) (simp_all add: runCommand_on_settled del: runCommand_on.simps)
  then show ?thesis
    by (simp add: runCommand_child_def runCommand_fold_settled_keep del: runCommand_on.simps)
qed

lemma runCommand_child_close:
  assumes "\<not> list_ex is_terminal pre"
  shows "runCommand_child toStr (pre @ CloseEvent code # rest) =
           Resolved \<lparr>ShellResult.exitCode = nullish_or code 1,
                     stdout = toStr (stdout_data pre), stderr = toStr (stderr_data pre)\<rparr>"
proof -
  let ?s = "foldl (runCommand_on toStr) \<lparr>stdoutChunks = [], stderrChunks = [], settled = Pending\<rparr> pre"
  have p: "settled ?s = Pending"
    using runCommand_fold_pending [OF assms] by simp
  have c: "concat (stdoutChunks ?s) = stdout_data pre" "concat (stderrChunks ?s) = stderr_data pre"
    using runCommand_fold_chunks [of toStr _ pre] by simp_all
  show ?thesis
    using runCommand_child_first_terminal [OF assms, of "CloseEvent code" toStr rest]
    by (simp add: runCommand_on_settled p c del: runCommand_on.simps)
qed

lemma runCommand_child_error:
  assumes "\<not> list_ex is_terminal pre"
  shows "runCommand_child toStr (pre @ ErrorEvent msg # rest) =
           Resolved \<lparr>ShellResult.exitCode = 1, stdout = [], stderr = msg\<rparr>"
proof -
  let ?s = "foldl (runCommand_on toStr) \<lparr>stdoutChunks = [], stderrChunks = [], settled = Pending\<rparr> pre"
  have p: "settled ?s = Pending"
    using runCommand_fold_pending [OF assms] by simp
  show ?thesis
    using runCommand_child_first_terminal [OF assms, of "ErrorEvent msg" toStr rest]
    by (simp add: runCommand_on_settled p del: runCommand_on.simps)
qed

lemma runCommand_child_resolves:
  assumes "list_ex is_terminal evs"
  shows "\<exists>r. runCommand_child toStr evs = Resolved r"
proof -
  obtain pre ev rest where e: "evs = pre @ ev # rest" "\<not> list_ex is_terminal pre" "is_terminal ev"
    using split_at_first_terminal [OF assms] by blast
  show ?thesis
    using e runCommand_child_close [of pre toStr _ rest] runCommand_child_error [of pre toStr _ rest]
    by (cases ev) auto
qed

lemma runCommand_on_not_rejected:
  "settled s \<noteq> Rejected x \<Longrightarrow> settled (runCommand_on toStr s ev) \<noteq> Rejected x"
  by (cases ev) (auto simp: resolve_simps split: promise.splits)

lemma runCommand_child_never_rejected: "runCommand_child toStr evs \<noteq> Rejected x"
proof -
  have "settled s \<noteq> Rejected x \<Longrightarrow> settled (foldl (runCommand_on toStr) s evs) \<noteq> Rejected x" for s
  proof (induction evs arbitrary: s)
    case Nil
    then show ?case by simp
  next
    case (Cons ev evs)
    from Cons.prems have "settled (runCommand_on toStr s ev) \<noteq> Rejected x"
      by (rule runCommand_on_not_rejected)
    then have "settled (foldl (runCommand_on toStr) (runCommand_on toStr s ev) evs) \<noteq> Rejected x"
      by (rule Cons.IH)
    then show ?case by simp
  qed
  then show ?thesis by (simp add: runCommand_child_def)
qed

text \<open>The buffer variant, \<open>runCommandBuffers\<close>.\<close>

lemma runCommandBuffers_on_settled:
  "settled (runCommandBuffers_on fromStr s ev) =
     (case settled s of
        Pending \<Rightarrow>
          (case ev of
             CloseEvent code \<Rightarrow>
               Resolved \<lparr>ShellResultBuffers.exitCode = nullish_or code 1,
                         stdoutBuffer = concat (stdoutChunks s),
                         stderrBuffer = concat (stderrChunks s)\<rparr>
           | ErrorEvent msg \<Rightarrow> Resolved \<lparr>ShellResultBuffers.exitCode = 1, stdoutBuffer = [], stderrBuffer = fromStr msg\<rparr>
           | _ \<Rightarrow> Pending)
      | p \<Rightarrow> p)"
  by (cases ev) (simp_all add: resolve_simps split: promise.splits)

lemma runCommandBuffers_on_chunks:
  "concat (stdoutChunks (runCommandBuffers_on fromStr s ev)) = concat (stdoutChunks s) @ stdout_data [ev]"
  "concat (stderrChunks (runCommandBuffers_on fromStr s ev)) = concat (stderrChunks s) @ stderr_data [ev]"
  by (cases ev; simp add: resolve_simps)+

lemma runCommandBuffers_fold_chunks:
  "concat (stdoutChunks (foldl (runCommandBuffers_on fromStr) s evs)) = concat (stdoutChunks s) @ stdout_data evs
   \<and> concat (stderrChunks (foldl (runCommandBuffers_on fromStr) s evs)) = concat (stderrChunks s) @ stderr_data evs"
proof (induction evs arbitrary: s)
  case Nil
  show ?case by simp
next
  case (Cons ev evs)
  have "stdout_data (ev # evs) = stdout_data [ev] @ stdout_data evs"
    using stdout_data_append [of "[ev]" evs] by simp
  moreover have "stderr_data (ev # evs) = stderr_data [ev] @ stderr_data evs"
    using stderr_data_append [of "[ev]" evs] by simp
  ultimately show ?case
    using Cons.IH [of "runCommandBuffers_on fromStr s ev"] by (simp add: runCommandBuffers_on_chunks)
qed

lemma runCommandBuffers_fold_settled_keep:
  "settled s \<noteq> Pending \<Longrightarrow> settled (foldl (runCommandBuffers_on fromStr) s evs) = settled s"
  by (induction evs arbitrary: s)
     (simp_all add: runCommandBuffers_on_settled del: runCommandBuffers_on.simps split: promise.splits)

lemma runCommandBuffers_fold_pending:
  "\<not> list_ex is_terminal evs \<Longrightarrow> settled (foldl (runCommandBuffers_on fromStr) s evs) = settled s"
proof (induction evs arbitrary: s)
  case Nil
  show ?case by simp
next
  case (Cons ev evs)
  then show ?case
    by (cases ev) (simp_all add: runCommandBuffers_on_settled del: runCommandBuffers_on.simps split: promise.splits)
qed

lemma runCommandBuffers_child_first_terminal:
  assumes "\<not> list_ex is_terminal pre" and "is_terminal ev"
  shows "runCommandBuffers_child fromStr (pre @ ev # rest) =
           settled (runCommandBuffers_on fromStr
              (foldl (runCommandBuffers_on fromStr) \<lparr>stdoutChunks = [], stderrChunks = [], settled = Pending\<rparr> pre) ev)"
proof -
  let ?s = "foldl (runCommandBuffers_on fromStr) \<lparr>stdoutChunks = [], stderrChunks = [], settled = Pending\<rparr> pre"
  have p: "settled ?s = Pending"
    using runCommandBuffers_fold_pending [OF assms(1)] by simp
  have "settled (runCommandBuffers_on fromStr ?s ev) \<noteq> Pending"
    using assms(2) p by (cases ev) (simp_all add: runCommandBuffers_on_settled del: runCommandBuffers_on.simps)
  then show ?thesis
    by (simp add: runCommandBuffers_child_def runCommandBuffers_fold_settled_keep del: runCommandBuffers_on.simps)
qed

lemma runCommandBuffers_child_close:
  assumes "\<not> list_ex is_terminal pre"
  shows "runCommandBuffers_child fromStr (pre @ CloseEvent code # rest) =
           Resolved \<lparr>ShellResultBuffers.exitCode = nullish_or code 1,
                     stdoutBuffer = stdout_data pre, stderrBuffer = stderr_data pre\<rparr>"
proof -
  let ?s = "foldl (runCommandBuffers_on fromStr) \<lparr>stdoutChunks = [], stderrChunks = [], settled = Pending\<rparr> pre"
  have p: "settled ?s = Pending"
    using runCommandBuffers_fold_pending [OF assms] by simp
  have c: "concat (stdoutChunks ?s) = stdout_data pre" "concat (stderrChunks ?s) = stderr_data pre"
    using runCommandBuffers_fold_chunks [of fromStr _ pre] by simp_all
  show ?thesis
    using runCommandBuffers_child_first_terminal [OF assms, of "CloseEvent code" fromStr rest]
    by (simp add: runCommandBuffers_on_settled p c del: runCommandBuffers_on.simps)
qed

lemma runCommandBuffers_child_error:
  assumes "\<not> list_ex is_terminal pre"
  shows "runCommandBuffers_child fromStr (pre @ ErrorEvent msg # rest) =
           Resolved \<lparr>ShellResultBuffers.exitCode = 1, stdoutBuffer = [], stderrBuffer = fromStr msg\<rparr>"
proof -
  let ?s = "foldl (runCommandBuffers_on fromStr) \<lparr>stdoutChunks = [], stderrChunks = [], settled = Pending\<rparr> pre"
  have p: "settled ?s = Pending"
    using runCommandBuffers_fold_pending [OF assms] by simp
  show ?thesis
    using runCommandBuffers_child_first_terminal [OF assms, of "ErrorEvent msg" fromStr rest]
    by (simp add: runCommandBuffers_on_settled p del: runCommandBuffers_on.simps)
qed

lemma runCommandBuffers_child_resolves:
  assumes "list_ex is_terminal evs"
  shows "\<exists>r. runCommandBuffers_child fromStr evs = Resolved r"
proof -
  obtain pre ev rest where e: "evs = pre @ ev # rest" "\<not> list_ex is_terminal pre" "is_terminal ev"
    using split_at_first_terminal [OF assms] by blast
  show ?thesis
    using e runCommandBuffers_child_close [of pre fromStr _ rest] runCommandBuffers_child_error [of pre fromStr _ rest]
    by (cases ev) auto
qed

lemma runCommandBuffers_on_not_rejected:
  "settled s \<noteq> Rejected x \<Longrightarrow> settled (runCommandBuffers_on fromStr s ev) \<noteq> Rejected x"
  by (cases ev) (auto simp: resolve_simps split: promise.splits)

lemma runCommandBuffers_child_never_rejected: "runCommandBuffers_child fromStr evs \<noteq> Rejected x"
proof -
  have "settled s \<noteq> Rejected x \<Longrightarrow> settled (foldl (runCommandBuffers_on fromStr) s evs) \<noteq> Rejected x" for s
  proof (induction evs arbitrary: s)
    case Nil
    then show ?case by simp
  next
    case (Cons ev evs)
    from Cons.prems have "settled (runCommandBuffers_on fromStr s ev) \<noteq> Rejected x"
      by (rule runCommandBuffers_on_not_rejected)
    then have "settled (foldl (runCommandBuffers_on fromStr) (runCommandBuffers_on fromStr s ev) evs) \<noteq> Rejected x"
      by (rule Cons.IH)
    then show ?case by simp
  qed
  then show ?thesis by (simp add: runCommandBuffers_child_def)
qed

lemma runCommand_of_child:
  "spawn command args = Child evs \<Longrightarrow>
     runCommand spawn toStr command args = runCommand_child toStr evs"
  "spawn command args = Child evs \<Longrightarrow>
     runCommandBuffers spawn fromStr command args = runCommandBuffers_child fromStr evs"
  by (simp_all add: runCommand_def runCommandBuffers_def)

lemma runCommand_of_throw:
  "spawn command args = SpawnThrows x \<Longrightarrow> runCommand spawn toStr command args = Rejected x"
  "spawn command args = SpawnThrows x \<Longrightarrow>
     runCommandBuffers spawn fromStr command args = Rejected x"
  by (simp_all add: runCommand_def runCommandBuffers_def)

text \<open>
  C8. The claim: for every command name and argument list, neither variant of the
  command execution service throws or rejects; it always resolves to a result, and a
  spawn failure resolves to exit code 1 with the error's message as stderr and empty
  stdout. As stated this fails: where \<open>spawn\<close> throws, as for an empty command name, the
  promise of either variant is rejected with the thrown value.
\<close>

theorem runCommand_rejects_when_spawn_throws:
  "runCommand (strict_spawn [CloseEvent (Some 0)]) ascii_toString [] [] =
     Rejected (JsError (Some ''ERR_INVALID_ARG_VALUE'') ''The argument file cannot be empty'')
   \<and> runCommandBuffers (strict_spawn [CloseEvent (Some 0)]) ascii_fromString [] [] =
     Rejected (JsError (Some ''ERR_INVALID_ARG_VALUE'') ''The argument file cannot be empty'')"
  by (simp add: runCommand_def runCommandBuffers_def strict_spawn_def)

text \<open>
  C8, amended. For every command name and argument list: when \<open>spawn\<close> hands back a
  child, neither variant ends in a rejected promise, whatever the child does; once the
  child has emitted \<open>close\<close> or \<open>error\<close> the promise is resolved with a result; and when
  the first of these events is \<open>error\<close> (a spawn failure) the result has exit code 1,
  the error's message as stderr and empty stdout. When \<open>spawn\<close> throws, the promise of
  either variant is rejected with the thrown value.
\<close>

theorem runCommand_settles:
  "(spawn command args = Child evs \<longrightarrow>
      runCommand spawn toStr command args \<noteq> Rejected y
      \<and> runCommandBuffers spawn fromStr command args \<noteq> Rejected y)
   \<and> (spawn command args = Child evs \<and> list_ex is_terminal evs \<longrightarrow>
      (\<exists>r. runCommand spawn toStr command args = Resolved r)
      \<and> (\<exists>r. runCommandBuffers spawn fromStr command args = Resolved r))
   \<and> (spawn command args = Child (pre @ ErrorEvent msg # rest) \<and> \<not> list_ex is_terminal pre \<longrightarrow>
      runCommand spawn toStr command args =
        Resolved \<lparr>ShellResult.exitCode = 1, stdout = [], stderr = msg\<rparr>
      \<and> runCommandBuffers spawn fromStr command args =
        Resolved \<lparr>ShellResultBuffers.exitCode = 1, stdoutBuffer = [], stderrBuffer = fromStr msg\<rparr>)
   \<and> (spawn command args = SpawnThrows x \<longrightarrow>
      runCommand spawn toStr command args = Rejected x
      \<and> runCommandBuffers spawn fromStr command args = Rejected x)"
proof -
  have a: "spawn command args = Child evs \<Longrightarrow>
      runCommand spawn toStr command args \<noteq> Rejected y
      \<and> runCommandBuffers spawn fromStr command args \<noteq> Rejected y"
    using runCommand_child_never_rejected [of toStr evs y]
      runCommandBuffers_child_never_rejected [of fromStr evs y]
    by (simp add: runCommand_of_child)
  have b: "spawn command args = Child evs \<Longrightarrow> list_ex is_terminal evs \<Longrightarrow>
      (\<exists>r. runCommand spawn toStr command args = Resolved r)
      \<and> (\<exists>r. runCommandBuffers spawn fromStr command args = Resolved r)"
    using runCommand_child_resolves [of evs toStr] runCommandBuffers_child_resolves [of evs fromStr]
    by (simp add: runCommand_of_child)
  have c: "spawn command args = Child (pre @ ErrorEvent msg # rest) \<Longrightarrow>
      \<not> list_ex is_terminal pre \<Longrightarrow>
      runCommand spawn toStr command args =
        Resolved \<lparr>ShellResult.exitCode = 1, stdout = [], stderr = msg\<rparr>
      \<and> runCommandBuffers spawn fromStr command args =
        Resolved \<lparr>ShellResultBuffers.exitCode = 1, stdoutBuffer = [], stderrBuffer = fromStr msg\<rparr>"
    using runCommand_child_error [of pre toStr msg rest]
      runCommandBuffers_child_error [of pre fromStr msg rest]
    by (simp add: runCommand_of_child)
  have d: "spawn command args = SpawnThrows x \<Longrightarrow>
      runCommand spawn toStr command args = Rejected x
      \<and> runCommandBuffers spawn fromStr command args = Rejected x"
    by (simp add: runCommand_of_throw)
  show ?thesis
    using a b c d by blast
qed

theorem runCommand_settles_witness:
  "spawn_child [StdoutData [104, 105], CloseEvent (Some 0)] ''ssh'' [''-V''] =
     Child [StdoutData [104, 105], CloseEvent (Some 0)]
   \<and> list_ex is_terminal [StdoutData [104, 105], CloseEvent (Some 0)]
   \<and> runCommand (spawn_child [StdoutData [104, 105], CloseEvent (Some 0)]) ascii_toString
         ''ssh'' [''-V''] \<noteq> Rejected (JsThrown ''x'')
   \<and> runCommandBuffers (spawn_child [StdoutData [104, 105], CloseEvent (Some 0)]) ascii_fromString
         ''ssh'' [''-V''] \<noteq> Rejected (JsThrown ''x'')
   \<and> (\<exists>r. runCommand (spawn_child [StdoutData [104, 105], CloseEvent (Some 0)]) ascii_toString
         ''ssh'' [''-V''] = Resolved r)
   \<and> (\<exists>r. runCommandBuffers (spawn_child [StdoutData [104, 105], CloseEvent (Some 0)])
         ascii_fromString ''ssh'' [''-V''] = Resolved r)
   \<and> spawn_child ([StdoutData [104, 105]] @ ErrorEvent ''spawn nossh ENOENT'' # [CloseEvent (Some (- 2))])
         ''nossh'' [] =
       Child ([StdoutData [104, 105]] @ ErrorEvent ''spawn nossh ENOENT'' # [CloseEvent (Some (- 2))])
   \<and> \<not> list_ex is_terminal [StdoutData [104, 105]]
   \<and> runCommand
         (spawn_child ([StdoutData [104, 105]] @ ErrorEvent ''spawn nossh ENOENT'' # [CloseEvent (Some (- 2))]))
         ascii_toString ''nossh'' [] =
       Resolved \<lparr>ShellResult.exitCode = 1, stdout = [], stderr = ''spawn nossh ENOENT''\<rparr>
   \<and> runCommandBuffers
         (spawn_child ([StdoutData [104, 105]] @ ErrorEvent ''spawn nossh ENOENT'' # [CloseEvent (Some (- 2))]))
         ascii_fromString ''nossh'' [] =
       Resolved \<lparr>ShellResultBuffers.exitCode = 1, stdoutBuffer = [],
                 stderrBuffer = ascii_fromString ''spawn nossh ENOENT''\<rparr>
   \<and> strict_spawn [CloseEvent (Some 0)] [] [] =
       SpawnThrows (JsError (Some ''ERR_INVALID_ARG_VALUE'') ''The argument file cannot be empty'')
   \<and> runCommand (strict_spawn [CloseEvent (Some 0)]) ascii_toString [] [] =
       Rejected (JsError (Some ''ERR_INVALID_ARG_VALUE'') ''The argument file cannot be empty'')
   \<and> runCommandBuffers (strict_spawn [CloseEvent (Some 0)]) ascii_fromString [] [] =
       Rejected (JsError (Some ''ERR_INVALID_ARG_VALUE'') ''The argument file cannot be empty'')"
proof -
  let ?ok = "[StdoutData [104, 105], CloseEvent (Some 0)]"
  let ?bad = "[StdoutData [104, 105]] @ ErrorEvent ''spawn nossh ENOENT'' # [CloseEvent (Some (- 2))]"
  let ?x = "JsError (Some ''ERR_INVALID_ARG_VALUE'') ''The argument file cannot be empty''"
  have s1: "spawn_child ?ok ''ssh'' [''-V''] = Child ?ok"
    by (simp add: spawn_child_def)
  have t1: "list_ex is_terminal ?ok" by simp
  have s2: "spawn_child ?bad ''nossh'' [] = Child ?bad"
    by (simp only: spawn_child_def)
  have n2: "\<not> list_ex is_terminal [StdoutData [104, 105]]" by simp
  have s3: "strict_spawn [CloseEvent (Some 0)] [] [] = SpawnThrows ?x"
    by (simp add: strict_spawn_def)
  note ok = runCommand_settles [where spawn = "spawn_child ?ok" and command = "''ssh''"
      and args = "[''-V'']" and evs = ?ok and toStr = ascii_toString and fromStr = ascii_fromString
      and y = "JsThrown ''x''"]
  note bad = runCommand_settles [where spawn = "spawn_child ?bad" and command = "''nossh''"
      and args = "[]" and pre = "[StdoutData [104, 105]]" and msg = "''spawn nossh ENOENT''"
      and rest = "[CloseEvent (Some (- 2))]" and toStr = ascii_toString
      and fromStr = ascii_fromString]
  note thr = runCommand_settles [where spawn = "strict_spawn [CloseEvent (Some 0)]"
      and command = "[]" and args = "[]" and x = ?x and toStr = ascii_toString
      and fromStr = ascii_fromString]
  show ?thesis
    using s1 t1 s2 n2 s3 ok bad thr by blast
qed

text \<open>
  C10. When \<open>spawn\<close> has handed back a child and the child closes with a \<open>null\<close> exit
  code before anything else settled the promise, both variants report exit code 1
  together with the output received until then, which is exactly what they report for
  a child that does the same and exits with code 1.
\<close>

theorem null_exit_code_is_one:
  assumes "\<not> list_ex is_terminal pre"
    and "spawn command args = Child (pre @ CloseEvent None # rest)"
    and "spawn1 command args = Child (pre @ CloseEvent (Some 1) # rest)"
  shows "runCommand spawn toStr command args =
           Resolved \<lparr>ShellResult.exitCode = 1, stdout = toStr (stdout_data pre),
                     stderr = toStr (stderr_data pre)\<rparr>
         \<and> runCommand spawn toStr command args = runCommand spawn1 toStr command args
         \<and> runCommandBuffers spawn fromStr command args =
           Resolved \<lparr>ShellResultBuffers.exitCode = 1, stdoutBuffer = stdout_data pre,
                     stderrBuffer = stderr_data pre\<rparr>
         \<and> runCommandBuffers spawn fromStr command args =
             runCommandBuffers spawn1 fromStr command args"
  using assms
  by (simp add: runCommand_of_child runCommand_child_close runCommandBuffers_child_close
      nullish_or_def)

theorem null_exit_code_is_one_witness:
  "\<not> list_ex is_terminal [StdoutData [104], StderrData [111], StdoutData [105]]
   \<and> spawn_child ([StdoutData [104], StderrData [111], StdoutData [105]] @ CloseEvent None # [])
        ''ssh'' [] =
       Child ([StdoutData [104], StderrData [111], StdoutData [105]] @ CloseEvent None # [])
   \<and> spawn_child ([StdoutData [104], StderrData [111], StdoutData [105]] @ CloseEvent (Some 1) # [])
        ''ssh'' [] =
       Child ([StdoutData [104], StderrData [111], StdoutData [105]] @ CloseEvent (Some 1) # [])
   \<and> runCommandBuffers
        (spawn_child ([StdoutData [104], StderrData [111], StdoutData [105]] @ CloseEvent None # []))
        ascii_fromString ''ssh'' [] =
       Resolved \<lparr>ShellResultBuffers.exitCode = 1, stdoutBuffer = [104, 105], stderrBuffer = [111]\<rparr>
   \<and> runCommand
        (spawn_child ([StdoutData [104], StderrData [111], StdoutData [105]] @ CloseEvent None # []))
        ascii_toString ''ssh'' [] =
       runCommand
        (spawn_child ([StdoutData [104], StderrData [111], StdoutData [105]] @ CloseEvent (Some 1) # []))
        ascii_toString ''ssh'' []
   \<and> runCommand
        (spawn_child ([StdoutData [104], StderrData [111], StdoutData [105]] @ CloseEvent None # []))
        ascii_toString ''ssh'' [] =
       Resolved \<lparr>ShellResult.exitCode = 1, stdout = ''hi'', stderr = ''o''\<rparr>"
proof -
  let ?pre = "[StdoutData [104], StderrData [111], StdoutData [105]]"
  have n: "\<not> list_ex is_terminal ?pre" by simp
  have s0: "spawn_child (?pre @ CloseEvent None # []) ''ssh'' [] = Child (?pre @ CloseEvent None # [])"
    by (simp only: spawn_child_def)
  have s1: "spawn_child (?pre @ CloseEvent (Some 1) # []) ''ssh'' [] =
      Child (?pre @ CloseEvent (Some 1) # [])"
    by (simp only: spawn_child_def)
  have e: "stdout_data ?pre = [104, 105]" "stderr_data ?pre = [111]"
    by simp_all
  have d: "ascii_toString [104, 105] = ''hi''" "ascii_toString [111] = ''o''"
    by code_simp+
  note inst = null_exit_code_is_one [where pre = ?pre and rest = "[]"
      and spawn = "spawn_child (?pre @ CloseEvent None # [])"
      and ?spawn1.0 = "spawn_child (?pre @ CloseEvent (Some 1) # [])"
      and command = "''ssh''" and args = "[]"
      and toStr = ascii_toString and fromStr = ascii_fromString]
  show ?thesis
    using n s0 s1 inst [OF n s0 s1]
    unfolding e d by blast
qed

section \<open>Evaluating the example environments\<close>

lemma ascii_roundtrip: "ascii_toString (ascii_fromString t) = t"
  by (induction t) (simp_all add: ascii_toString_def ascii_fromString_def unat_of_nat)

lemmas env_defs = example_env_def missing_env_def dead_env_def vanished_env_def protected_env_def
  rejecting_env_def publickey_env_def

lemmas run_defs = SSHCheckSocketOp_run_def SSHExitSocketOp_run_def RemoveSocketFileOp_run_def Let_def
  SSHCheckSocketOp_args_def SSHExitSocketOp_args_def

lemma example_replies:
  "runCommand (spawn_child [CloseEvent (Some 0)]) ascii_toString c a =
     Resolved \<lparr>ShellResult.exitCode = 0, stdout = [], stderr = []\<rparr>"
  "runCommand (spawn_child [StderrData (ascii_fromString t), CloseEvent (Some 255)]) ascii_toString c a =
     Resolved \<lparr>ShellResult.exitCode = 255, stdout = [], stderr = t\<rparr>"
  "runCommandBuffers (spawn_child [StderrData (ascii_fromString t), CloseEvent (Some 255)])
       ascii_fromString c a =
     Resolved \<lparr>ShellResultBuffers.exitCode = 255, stdoutBuffer = [], stderrBuffer = ascii_fromString t\<rparr>"
  "runCommandBuffers (spawn_child [StdoutData (ascii_fromString t), CloseEvent (Some 3)])
       ascii_fromString c a =
     Resolved \<lparr>ShellResultBuffers.exitCode = 3, stdoutBuffer = ascii_fromString t, stderrBuffer = []\<rparr>"
  "runCommand (spawn_throws x) ascii_toString c a = Rejected x"
  by (simp_all add: runCommand_def runCommandBuffers_def runCommand_child_def
      runCommandBuffers_child_def spawn_child_def spawn_throws_def resolve_def nullish_or_def
      ascii_roundtrip)
     (simp_all add: ascii_toString_def)

section \<open>Create: the order of the tests\<close>

text \<open>
  The chain of \<open>src/SSHCreateSocketOp.ts\<close> is the first-match reading of \<open>create_rules\<close>,
  with \<open>UnknownError\<close>, the exit code and the stderr text when no rule matches; a stderr text
  with the public-key phrase fails with \<open>PermissionDenied\<close> there. In the copy of
  \<open>src/unnamed/part_000\<close> the test for the public-key phrase comes last, after the test
  for \<open>Permission denied\<close>, which every text with the public-key phrase passes: that copy
  answers \<open>AuthenticationFailed\<close> and never \<open>PermissionDenied\<close>.
\<close>

lemma SSHCreateSocketOp_classify_first_match:
  "SSHCreateSocketOp_classify code err =
     (case first_match create_rules err of
        Some k \<Rightarrow> Failure k err
      | None \<Rightarrow> Failure UnknownError (''Exit code '' @ show_int code @ '': '' @ err))"
  by (simp add: SSHCreateSocketOp_classify_def create_rules_def any_of_def)

lemma SSHCreateSocketOp_classify_publickey:
  "includes_str err ''Permission denied (publickey'' \<Longrightarrow>
     SSHCreateSocketOp_classify code err = Failure PermissionDenied err"
  by (simp add: SSHCreateSocketOp_classify_def)

lemma SSHCreateSocketOp_classify_part_000_publickey:
  "includes_str err ''Permission denied (publickey'' \<Longrightarrow>
     SSHCreateSocketOp_classify_part_000 code err = Failure AuthenticationFailed err"
  using publickey_is_denied [of err] by (simp add: SSHCreateSocketOp_classify_part_000_def)

lemma SSHCreateSocketOp_classify_part_000_never_PermissionDenied:
  "SSHCreateSocketOp_classify_part_000 code err \<noteq> Failure PermissionDenied d"
  using publickey_is_denied [of err] by (auto simp: SSHCreateSocketOp_classify_part_000_def)

lemma SSHCreateSocketOp_run_nonzero:
  assumes "runCommand_reply e h ''ssh''
             (SSHCreateSocketOp_args (getSocketPath hid sp) ct sai hid) = Resolved r"
    and "ShellResult.exitCode r \<noteq> 0"
  shows "fst (SSHCreateSocketOp_run e hid sp ct sai h) =
           Some (case first_match create_rules (ShellResult.stderr r) of
                   Some k \<Rightarrow> Failure k (ShellResult.stderr r)
                 | None \<Rightarrow> Failure UnknownError
                     (''Exit code '' @ show_int (ShellResult.exitCode r) @ '': '' @ ShellResult.stderr r))"
  using assms
  by (simp add: SSHCreateSocketOp_run_def SSHCreateSocketOp_run_with_def Let_def
      SSHCreateSocketOp_classify_first_match)

lemma SSHCreateSocketOp_run_publickey:
  assumes "runCommand_reply e h ''ssh''
             (SSHCreateSocketOp_args (getSocketPath hid sp) ct sai hid) = Resolved r"
    and "ShellResult.exitCode r \<noteq> 0"
    and "includes_str (ShellResult.stderr r) ''Permission denied (publickey''"
  shows "fst (SSHCreateSocketOp_run e hid sp ct sai h) = Some (Failure PermissionDenied (ShellResult.stderr r))"
  using assms
  by (simp add: SSHCreateSocketOp_run_def SSHCreateSocketOp_run_with_def Let_def
      SSHCreateSocketOp_classify_publickey)

lemma SSHCreateSocketOp_run_part_000_publickey:
  assumes "runCommand_reply e h ''ssh''
             (SSHCreateSocketOp_args (getSocketPath hid sp) ct sai hid) = Resolved r"
    and "ShellResult.exitCode r \<noteq> 0"
    and "includes_str (ShellResult.stderr r) ''Permission denied (publickey''"
  shows "fst (SSHCreateSocketOp_run_part_000 e hid sp ct sai h) =
           Some (Failure AuthenticationFailed (ShellResult.stderr r))"
  using assms
  by (simp add: SSHCreateSocketOp_run_part_000_def SSHCreateSocketOp_run_with_def Let_def
      SSHCreateSocketOp_classify_part_000_publickey)

text \<open>
  C1. Create classifies a nonzero exit by ordered substring tests on stderr, the specific
  test first: a stderr text with \<open>Permission denied (publickey\<close> is to fail with
  \<open>PermissionDenied\<close>, not \<open>AuthenticationFailed\<close>. When the client exits with 255 and
  the stderr text \<open>user@host: Permission denied (publickey,password).\<close>, the operation of
  \<open>src/SSHCreateSocketOp.ts\<close> fails with \<open>PermissionDenied\<close>, and the operation of
  \<open>src/unnamed/part_000\<close> fails with \<open>AuthenticationFailed\<close>.
\<close>

theorem create_publickey_part_000:
  "fst (SSHCreateSocketOp_run_part_000 publickey_env ''user@host'' None 10 30 []) =
     Some (Failure AuthenticationFailed ''user@host: Permission denied (publickey,password).'')
   \<and> fst (SSHCreateSocketOp_run publickey_env ''user@host'' None 10 30 []) =
     Some (Failure PermissionDenied ''user@host: Permission denied (publickey,password).'')"
  by (simp add: SSHCreateSocketOp_run_part_000_def SSHCreateSocketOp_run_def
      SSHCreateSocketOp_run_with_def Let_def env_defs example_replies
      SSHCreateSocketOp_classify_def SSHCreateSocketOp_classify_part_000_def)

section \<open>Check\<close>

text \<open>
  C5. When \<open>stat\<close> of the socket file fails, Check fails with \<open>SocketNotFound\<close> and has
  made no other call than that \<open>stat\<close>: the client is not invoked. When the file exists
  and the check command ends with exit code 0, Check succeeds with \<open>alive\<close>; when it ends
  with any other exit code, Check succeeds with \<open>dead\<close>.
\<close>

theorem SSHCheckSocketOp_outcomes:
  "(stat_reply e h sock = Some x \<longrightarrow>
      SSHCheckSocketOp_run e sock hid h =
        (Some (Failure SocketNotFound (''Control socket does not exist: '' @ sock)), h @ [Stat sock]))
   \<and> (stat_reply e h sock = None
        \<and> runCommand_reply e (h @ [Stat sock]) ''ssh'' (SSHCheckSocketOp_args sock hid) = Resolved r
        \<and> ShellResult.exitCode r = 0 \<longrightarrow>
      fst (SSHCheckSocketOp_run e sock hid h) = Some (Success alive))
   \<and> (stat_reply e h sock = None
        \<and> runCommand_reply e (h @ [Stat sock]) ''ssh'' (SSHCheckSocketOp_args sock hid) = Resolved r
        \<and> ShellResult.exitCode r \<noteq> 0 \<longrightarrow>
      fst (SSHCheckSocketOp_run e sock hid h) = Some (Success dead))"
  by (simp add: SSHCheckSocketOp_run_def Let_def)

theorem SSHCheckSocketOp_outcomes_witness:
  "stat_reply missing_env [] ''/tmp/s'' = Some (JsError (Some ''ENOENT'') ''ENOENT: no such file or directory'')
   \<and> SSHCheckSocketOp_run missing_env ''/tmp/s'' ''user@host'' [] =
        (Some (Failure SocketNotFound ''Control socket does not exist: /tmp/s''), [Stat ''/tmp/s''])
   \<and> stat_reply example_env [] ''/tmp/s'' = None
   \<and> runCommand_reply example_env ([] @ [Stat ''/tmp/s'']) ''ssh'' (SSHCheckSocketOp_args ''/tmp/s'' ''user@host'') =
        Resolved \<lparr>ShellResult.exitCode = 0, stdout = [], stderr = []\<rparr>
   \<and> fst (SSHCheckSocketOp_run example_env ''/tmp/s'' ''user@host'' []) = Some (Success alive)
   \<and> stat_reply dead_env [] ''/tmp/s'' = None
   \<and> runCommand_reply dead_env ([] @ [Stat ''/tmp/s'']) ''ssh'' (SSHCheckSocketOp_args ''/tmp/s'' ''user@host'') =
        Resolved \<lparr>ShellResult.exitCode = 255, stdout = [],
                  stderr = ''Control socket connect(/tmp/s): Connection refused''\<rparr>
   \<and> fst (SSHCheckSocketOp_run dead_env ''/tmp/s'' ''user@host'' []) = Some (Success dead)"
proof -
  have m: "stat_reply missing_env [] ''/tmp/s'' = Some (JsError (Some ''ENOENT'') ''ENOENT: no such file or directory'')"
    by (simp add: env_defs)
  have a: "stat_reply example_env [] ''/tmp/s'' = None"
    "runCommand_reply example_env ([] @ [Stat ''/tmp/s'']) ''ssh'' (SSHCheckSocketOp_args ''/tmp/s'' ''user@host'') =
        Resolved \<lparr>ShellResult.exitCode = 0, stdout = [], stderr = []\<rparr>"
    by (simp_all add: env_defs example_replies)
  have d: "stat_reply dead_env [] ''/tmp/s'' = None"
    "runCommand_reply dead_env ([] @ [Stat ''/tmp/s'']) ''ssh'' (SSHCheckSocketOp_args ''/tmp/s'' ''user@host'') =
        Resolved \<lparr>ShellResult.exitCode = 255, stdout = [],
                  stderr = ''Control socket connect(/tmp/s): Connection refused''\<rparr>"
    by (simp_all add: env_defs example_replies)
  show ?thesis
    using m a d
      SSHCheckSocketOp_outcomes [of missing_env "[]" "''/tmp/s''" _ "''user@host''"]
      SSHCheckSocketOp_outcomes [of example_env "[]" "''/tmp/s''" _ "''user@host''"
        "\<lparr>ShellResult.exitCode = 0, stdout = [], stderr = []\<rparr>"]
      SSHCheckSocketOp_outcomes [of dead_env "[]" "''/tmp/s''" _ "''user@host''"
        "\<lparr>ShellResult.exitCode = 255, stdout = [],
                  stderr = ''Control socket connect(/tmp/s): Connection refused''\<rparr>"]
    by simp
qed

section \<open>Exit\<close>

text \<open>
  C6. The claim: when the socket file does not exist, Exit fails with \<open>SocketNotFound\<close>;
  otherwise Exit succeeds with a boolean that is true exactly when the exit command
  exits with code 0. As stated this fails: with the file present, when the execution
  layer rejects instead of giving a result, Exit fails with \<open>UnknownError\<close>.
\<close>

theorem SSHExitSocketOp_fails_when_rejected:
  "stat_reply rejecting_env [] ''/tmp/s'' = None
   \<and> fst (SSHExitSocketOp_run rejecting_env ''/tmp/s'' ''user@host'' []) =
       Some (Failure UnknownError ''spawn failed'')"
  by (simp add: run_defs env_defs example_replies)

text \<open>
  C6, amended. When \<open>stat\<close> of the socket file fails, Exit fails with \<open>SocketNotFound\<close>.
  When the file exists and the exit command ends, Exit succeeds, with the boolean that
  says whether the exit code was 0; a nonzero exit code is a success with \<open>False\<close>, never
  a failure. When the file exists and the execution layer rejects instead, Exit fails
  with \<open>UnknownError\<close> and the message of what was thrown.
\<close>

theorem SSHExitSocketOp_outcomes:
  "(stat_reply e h sock = Some x \<longrightarrow>
      SSHExitSocketOp_run e sock hid h =
        (Some (Failure SocketNotFound (''Control socket does not exist: '' @ sock)), h @ [Stat sock]))
   \<and> (stat_reply e h sock = None
        \<and> runCommand_reply e (h @ [Stat sock]) ''ssh'' (SSHExitSocketOp_args sock hid) = Resolved r \<longrightarrow>
      fst (SSHExitSocketOp_run e sock hid h) = Some (Success (ShellResult.exitCode r = 0)))
   \<and> (stat_reply e h sock = None
        \<and> runCommand_reply e (h @ [Stat sock]) ''ssh'' (SSHExitSocketOp_args sock hid) = Rejected y \<longrightarrow>
      fst (SSHExitSocketOp_run e sock hid h) = Some (Failure UnknownError (exception_message y)))"
  by (simp add: SSHExitSocketOp_run_def Let_def)

theorem SSHExitSocketOp_outcomes_witness:
  "stat_reply missing_env [] ''/tmp/s'' = Some (JsError (Some ''ENOENT'') ''ENOENT: no such file or directory'')
   \<and> SSHExitSocketOp_run missing_env ''/tmp/s'' ''user@host'' [] =
        (Some (Failure SocketNotFound ''Control socket does not exist: /tmp/s''), [Stat ''/tmp/s''])
   \<and> stat_reply example_env [] ''/tmp/s'' = None
   \<and> runCommand_reply example_env [Stat ''/tmp/s''] ''ssh'' (SSHExitSocketOp_args ''/tmp/s'' ''user@host'') =
        Resolved \<lparr>ShellResult.exitCode = 0, stdout = [], stderr = []\<rparr>
   \<and> fst (SSHExitSocketOp_run example_env ''/tmp/s'' ''user@host'' []) = Some (Success True)
   \<and> stat_reply dead_env [] ''/tmp/s'' = None
   \<and> runCommand_reply dead_env [Stat ''/tmp/s''] ''ssh'' (SSHExitSocketOp_args ''/tmp/s'' ''user@host'') =
        Resolved \<lparr>ShellResult.exitCode = 255, stdout = [],
                  stderr = ''Control socket connect(/tmp/s): Connection refused''\<rparr>
   \<and> fst (SSHExitSocketOp_run dead_env ''/tmp/s'' ''user@host'' []) = Some (Success False)
   \<and> stat_reply rejecting_env [] ''/tmp/s'' = None
   \<and> runCommand_reply rejecting_env [Stat ''/tmp/s''] ''ssh''
        (SSHExitSocketOp_args ''/tmp/s'' ''user@host'') = Rejected (JsError None ''spawn failed'')
   \<and> fst (SSHExitSocketOp_run rejecting_env ''/tmp/s'' ''user@host'' []) =
        Some (Failure UnknownError ''spawn failed'')"
proof -
  let ?r0 = "\<lparr>ShellResult.exitCode = 0, stdout = [], stderr = []\<rparr>"
  let ?r255 = "\<lparr>ShellResult.exitCode = 255, stdout = [],
                  stderr = ''Control socket connect(/tmp/s): Connection refused''\<rparr>"
  have m: "stat_reply missing_env [] ''/tmp/s'' = Some (JsError (Some ''ENOENT'') ''ENOENT: no such file or directory'')"
    by (simp add: env_defs)
  have a: "stat_reply example_env [] ''/tmp/s'' = None"
    "runCommand_reply example_env ([] @ [Stat ''/tmp/s'']) ''ssh'' (SSHExitSocketOp_args ''/tmp/s'' ''user@host'') =
        Resolved ?r0"
    by (simp_all add: env_defs example_replies)
  have d: "stat_reply dead_env [] ''/tmp/s'' = None"
    "runCommand_reply dead_env ([] @ [Stat ''/tmp/s'']) ''ssh'' (SSHExitSocketOp_args ''/tmp/s'' ''user@host'') =
        Resolved ?r255"
    by (simp_all add: env_defs example_replies)
  have j: "stat_reply rejecting_env [] ''/tmp/s'' = None"
    "runCommand_reply rejecting_env ([] @ [Stat ''/tmp/s'']) ''ssh''
        (SSHExitSocketOp_args ''/tmp/s'' ''user@host'') = Rejected (JsError None ''spawn failed'')"
    by (simp_all add: env_defs example_replies)
  have xm: "SSHExitSocketOp_run missing_env ''/tmp/s'' ''user@host'' [] =
        (Some (Failure SocketNotFound (''Control socket does not exist: '' @ ''/tmp/s'')), [] @ [Stat ''/tmp/s''])"
    using m SSHExitSocketOp_outcomes [where e = missing_env and h = "[]" and sock = "''/tmp/s''"
        and hid = "''user@host''"
        and x = "JsError (Some ''ENOENT'') ''ENOENT: no such file or directory''"]
    by blast
  have xa: "fst (SSHExitSocketOp_run example_env ''/tmp/s'' ''user@host'' []) =
        Some (Success (ShellResult.exitCode ?r0 = 0))"
    using a SSHExitSocketOp_outcomes [where e = example_env and h = "[]" and sock = "''/tmp/s''"
        and hid = "''user@host''" and r = ?r0]
    by blast
  have xd: "fst (SSHExitSocketOp_run dead_env ''/tmp/s'' ''user@host'' []) =
        Some (Success (ShellResult.exitCode ?r255 = 0))"
    using d SSHExitSocketOp_outcomes [where e = dead_env and h = "[]" and sock = "''/tmp/s''"
        and hid = "''user@host''" and r = ?r255]
    by blast
  have xj: "fst (SSHExitSocketOp_run rejecting_env ''/tmp/s'' ''user@host'' []) =
        Some (Failure UnknownError (exception_message (JsError None ''spawn failed'')))"
    using j SSHExitSocketOp_outcomes [where e = rejecting_env and h = "[]" and sock = "''/tmp/s''"
        and hid = "''user@host''" and y = "JsError None ''spawn failed''"]
    by blast
  show ?thesis
    using m a d j by (simp add: xm xa xd xj)
qed

section \<open>Validate\<close>

text \<open>
  C7. When Check fails with \<open>SocketNotFound\<close>, Validate succeeds with \<open>valid = False\<close> and
  status \<open>not_found\<close>; when Check succeeds with \<open>alive\<close> or \<open>dead\<close>, Validate succeeds with
  that status and \<open>valid\<close> true exactly for \<open>alive\<close>; any other failure of Check makes
  Validate fail with \<open>UnknownError\<close>. In every successful result, \<open>valid\<close> holds exactly
  when the status is \<open>alive\<close>.
\<close>

theorem ValidateSocketOp_outcomes:
  "(SSHCheckSocketOp_run e sock hid h = (Some (Failure SocketNotFound d), h1) \<longrightarrow>
      ValidateSocketOp_run e sock hid h =
        (Some (Success \<lparr>valid = False, status = not_found\<rparr>), h1))
   \<and> (SSHCheckSocketOp_run e sock hid h = (Some (Success st), h1) \<and> (st = alive \<or> st = dead) \<longrightarrow>
      ValidateSocketOp_run e sock hid h =
        (Some (Success \<lparr>valid = (st = alive), status = st\<rparr>), h1))
   \<and> (SSHCheckSocketOp_run e sock hid h = (Some (Failure f d), h1) \<and> f \<noteq> SocketNotFound \<longrightarrow>
      ValidateSocketOp_run e sock hid h = (Some (Failure UnknownError d), h1))
   \<and> (fst (ValidateSocketOp_run e sock hid h) = Some (Success v) \<longrightarrow>
      (valid v \<longleftrightarrow> status v = alive))"
  by (auto simp: ValidateSocketOp_run_def Let_def split: prod.splits option.splits if_splits)

theorem ValidateSocketOp_outcomes_witness:
  "SSHCheckSocketOp_run missing_env ''/tmp/s'' ''user@host'' [] =
        (Some (Failure SocketNotFound ''Control socket does not exist: /tmp/s''), [Stat ''/tmp/s''])
   \<and> ValidateSocketOp_run missing_env ''/tmp/s'' ''user@host'' [] =
        (Some (Success \<lparr>valid = False, status = not_found\<rparr>), [Stat ''/tmp/s''])
   \<and> SSHCheckSocketOp_run example_env ''/tmp/s'' ''user@host'' [] =
        (Some (Success alive),
         [Stat ''/tmp/s'', RunCommand ''ssh'' [''-S'', ''/tmp/s'', ''-O'', ''check'', ''user@host'']])
   \<and> ValidateSocketOp_run example_env ''/tmp/s'' ''user@host'' [] =
        (Some (Success \<lparr>valid = True, status = alive\<rparr>),
         [Stat ''/tmp/s'', RunCommand ''ssh'' [''-S'', ''/tmp/s'', ''-O'', ''check'', ''user@host'']])
   \<and> SSHCheckSocketOp_run dead_env ''/tmp/s'' ''user@host'' [] =
        (Some (Success dead),
         [Stat ''/tmp/s'', RunCommand ''ssh'' [''-S'', ''/tmp/s'', ''-O'', ''check'', ''user@host'']])
   \<and> ValidateSocketOp_run dead_env ''/tmp/s'' ''user@host'' [] =
        (Some (Success \<lparr>valid = False, status = dead\<rparr>),
         [Stat ''/tmp/s'', RunCommand ''ssh'' [''-S'', ''/tmp/s'', ''-O'', ''check'', ''user@host'']])
   \<and> SSHCheckSocketOp_run rejecting_env ''/tmp/s'' ''user@host'' [] =
        (Some (Failure UnknownError ''spawn failed''),
         [Stat ''/tmp/s'', RunCommand ''ssh'' [''-S'', ''/tmp/s'', ''-O'', ''check'', ''user@host'']])
   \<and> UnknownError \<noteq> SocketNotFound
   \<and> ValidateSocketOp_run rejecting_env ''/tmp/s'' ''user@host'' [] =
        (Some (Failure UnknownError ''spawn failed''),
         [Stat ''/tmp/s'', RunCommand ''ssh'' [''-S'', ''/tmp/s'', ''-O'', ''check'', ''user@host'']])
   \<and> fst (ValidateSocketOp_run example_env ''/tmp/s'' ''user@host'' []) =
        Some (Success \<lparr>valid = True, status = alive\<rparr>)
   \<and> (valid \<lparr>valid = True, status = alive\<rparr> \<longleftrightarrow> status \<lparr>valid = True, status = alive\<rparr> = alive)"
proof -
  let ?h = "[Stat ''/tmp/s'', RunCommand ''ssh'' [''-S'', ''/tmp/s'', ''-O'', ''check'', ''user@host'']]"
  have m: "SSHCheckSocketOp_run missing_env ''/tmp/s'' ''user@host'' [] =
        (Some (Failure SocketNotFound ''Control socket does not exist: /tmp/s''), [Stat ''/tmp/s''])"
    by (simp add: run_defs env_defs example_replies)
  have a: "SSHCheckSocketOp_run example_env ''/tmp/s'' ''user@host'' [] = (Some (Success alive), ?h)"
    by (simp add: run_defs env_defs example_replies)
  have d: "SSHCheckSocketOp_run dead_env ''/tmp/s'' ''user@host'' [] = (Some (Success dead), ?h)"
    by (simp add: run_defs env_defs example_replies)
  have r: "SSHCheckSocketOp_run rejecting_env ''/tmp/s'' ''user@host'' [] =
        (Some (Failure UnknownError ''spawn failed''), ?h)"
    by (simp add: run_defs env_defs example_replies)
  have vm: "ValidateSocketOp_run missing_env ''/tmp/s'' ''user@host'' [] =
        (Some (Success \<lparr>valid = False, status = not_found\<rparr>), [Stat ''/tmp/s''])"
    using m ValidateSocketOp_outcomes [where e = missing_env and sock = "''/tmp/s''"
        and hid = "''user@host''" and h = "[]"
        and d = "''Control socket does not exist: /tmp/s''" and ?h1.0 = "[Stat ''/tmp/s'']"]
    by blast
  have va: "ValidateSocketOp_run example_env ''/tmp/s'' ''user@host'' [] =
        (Some (Success \<lparr>valid = (alive = alive), status = alive\<rparr>), ?h)"
    using a ValidateSocketOp_outcomes [where e = example_env and sock = "''/tmp/s''"
        and hid = "''user@host''" and h = "[]" and ?h1.0 = ?h and st = alive]
    by blast
  have vd: "ValidateSocketOp_run dead_env ''/tmp/s'' ''user@host'' [] =
        (Some (Success \<lparr>valid = (dead = alive), status = dead\<rparr>), ?h)"
    using d ValidateSocketOp_outcomes [where e = dead_env and sock = "''/tmp/s''"
        and hid = "''user@host''" and h = "[]" and ?h1.0 = ?h and st = dead]
    by blast
  have ne: "UnknownError \<noteq> SocketNotFound" by simp
  have vr: "ValidateSocketOp_run rejecting_env ''/tmp/s'' ''user@host'' [] =
        (Some (Failure UnknownError ''spawn failed''), ?h)"
    using r ne ValidateSocketOp_outcomes [where e = rejecting_env and sock = "''/tmp/s''"
        and hid = "''user@host''" and h = "[]" and ?h1.0 = ?h
        and d = "''spawn failed''" and f = UnknownError]
    by blast
  have v: "fst (ValidateSocketOp_run example_env ''/tmp/s'' ''user@host'' []) =
        Some (Success \<lparr>valid = True, status = alive\<rparr>)"
    by (simp add: va)
  have vv: "valid \<lparr>valid = True, status = alive\<rparr> \<longleftrightarrow> status \<lparr>valid = True, status = alive\<rparr> = alive"
    using v ValidateSocketOp_outcomes [where e = example_env and sock = "''/tmp/s''"
        and hid = "''user@host''" and h = "[]" and v = "\<lparr>valid = True, status = alive\<rparr>"]
    by blast
  show ?thesis
    using m a d r ne v vv by (simp add: vm va vd vr)
qed

section \<open>TearDown\<close>

text \<open>
  C3. When Exit fails with \<open>SocketNotFound\<close>, TearDown succeeds with both fields false and
  has made no call after the \<open>stat\<close> of Exit: nothing is unlinked. When the removal fails
  with \<open>FileNotFound\<close>, TearDown succeeds with \<open>fileRemoved = False\<close>; any other failure
  of the removal makes TearDown fail with \<open>RemoveFailed\<close>. So TearDown of a path whose
  \<open>stat\<close> fails, as for a socket that was never created, succeeds with both fields
  false.
\<close>

theorem TearDownSocketOp_outcomes:
  "(SSHExitSocketOp_run e sock hid h = (Some (Failure SocketNotFound d), h1) \<longrightarrow>
      TearDownSocketOp_run e sock hid h =
        (Some (Success \<lparr>exitedCleanly = False, fileRemoved = False\<rparr>), h1)
      \<and> h1 = h @ [Stat sock])
   \<and> (SSHExitSocketOp_run e sock hid h = (Some xo, h1)
        \<and> (is_ok xo \<or> failure_of xo \<noteq> SocketNotFound)
        \<and> RemoveSocketFileOp_run e sock h1 = (Failure FileNotFound d, h2) \<longrightarrow>
      TearDownSocketOp_run e sock hid h =
        (Some (Success \<lparr>exitedCleanly = (is_ok xo \<and> val xo), fileRemoved = False\<rparr>), h2))
   \<and> (SSHExitSocketOp_run e sock hid h = (Some xo, h1)
        \<and> (is_ok xo \<or> failure_of xo \<noteq> SocketNotFound)
        \<and> RemoveSocketFileOp_run e sock h1 = (Failure f d, h2) \<and> f \<noteq> FileNotFound \<longrightarrow>
      TearDownSocketOp_run e sock hid h = (Some (Failure RemoveFailed d), h2))
   \<and> (stat_reply e h sock = Some x \<longrightarrow>
      TearDownSocketOp_run e sock hid h =
        (Some (Success \<lparr>exitedCleanly = False, fileRemoved = False\<rparr>), h @ [Stat sock]))"
proof -
  have a: "SSHExitSocketOp_run e sock hid h = (Some (Failure SocketNotFound d), h1) \<Longrightarrow> h1 = h @ [Stat sock]"
    by (auto simp: SSHExitSocketOp_run_def Let_def split: option.splits promise.splits)
  have b: "stat_reply e h sock = Some x \<Longrightarrow>
      SSHExitSocketOp_run e sock hid h =
        (Some (Failure SocketNotFound (''Control socket does not exist: '' @ sock)), h @ [Stat sock])"
    by (simp add: SSHExitSocketOp_run_def Let_def)
  show ?thesis
    using a b by (cases xo) (auto simp: TearDownSocketOp_run_def Let_def)
qed

theorem TearDownSocketOp_outcomes_witness:
  "SSHExitSocketOp_run missing_env ''/tmp/s'' ''user@host'' [] =
        (Some (Failure SocketNotFound ''Control socket does not exist: /tmp/s''), [Stat ''/tmp/s''])
   \<and> stat_reply missing_env [] ''/tmp/s'' =
        Some (JsError (Some ''ENOENT'') ''ENOENT: no such file or directory'')
   \<and> TearDownSocketOp_run missing_env ''/tmp/s'' ''user@host'' [] =
        (Some (Success \<lparr>exitedCleanly = False, fileRemoved = False\<rparr>), [Stat ''/tmp/s''])
   \<and> SSHExitSocketOp_run vanished_env ''/tmp/s'' ''user@host'' [] =
        (Some (Success True),
         [Stat ''/tmp/s'', RunCommand ''ssh'' [''-S'', ''/tmp/s'', ''-O'', ''exit'', ''user@host'']])
   \<and> RemoveSocketFileOp_run vanished_env ''/tmp/s''
          [Stat ''/tmp/s'', RunCommand ''ssh'' [''-S'', ''/tmp/s'', ''-O'', ''exit'', ''user@host'']] =
        (Failure FileNotFound ''File does not exist: /tmp/s'',
         [Stat ''/tmp/s'', RunCommand ''ssh'' [''-S'', ''/tmp/s'', ''-O'', ''exit'', ''user@host''],
          Unlink ''/tmp/s''])
   \<and> TearDownSocketOp_run vanished_env ''/tmp/s'' ''user@host'' [] =
        (Some (Success \<lparr>exitedCleanly = True, fileRemoved = False\<rparr>),
         [Stat ''/tmp/s'', RunCommand ''ssh'' [''-S'', ''/tmp/s'', ''-O'', ''exit'', ''user@host''],
          Unlink ''/tmp/s''])
   \<and> SSHExitSocketOp_run protected_env ''/tmp/s'' ''user@host'' [] =
        (Some (Success True),
         [Stat ''/tmp/s'', RunCommand ''ssh'' [''-S'', ''/tmp/s'', ''-O'', ''exit'', ''user@host'']])
   \<and> RemoveSocketFileOp_run protected_env ''/tmp/s''
          [Stat ''/tmp/s'', RunCommand ''ssh'' [''-S'', ''/tmp/s'', ''-O'', ''exit'', ''user@host'']] =
        (Failure PermissionDenied ''Permission denied: /tmp/s'',
         [Stat ''/tmp/s'', RunCommand ''ssh'' [''-S'', ''/tmp/s'', ''-O'', ''exit'', ''user@host''],
          Unlink ''/tmp/s''])
   \<and> PermissionDenied \<noteq> FileNotFound
   \<and> TearDownSocketOp_run protected_env ''/tmp/s'' ''user@host'' [] =
        (Some (Failure RemoveFailed ''Permission denied: /tmp/s''),
         [Stat ''/tmp/s'', RunCommand ''ssh'' [''-S'', ''/tmp/s'', ''-O'', ''exit'', ''user@host''],
          Unlink ''/tmp/s''])"
proof -
  let ?h1 = "[Stat ''/tmp/s'', RunCommand ''ssh'' [''-S'', ''/tmp/s'', ''-O'', ''exit'', ''user@host'']]"
  let ?h2 = "[Stat ''/tmp/s'', RunCommand ''ssh'' [''-S'', ''/tmp/s'', ''-O'', ''exit'', ''user@host''],
          Unlink ''/tmp/s'']"
  have m: "SSHExitSocketOp_run missing_env ''/tmp/s'' ''user@host'' [] =
        (Some (Failure SocketNotFound ''Control socket does not exist: /tmp/s''), [Stat ''/tmp/s''])"
    by (simp add: run_defs env_defs example_replies)
  have ms: "stat_reply missing_env [] ''/tmp/s'' =
        Some (JsError (Some ''ENOENT'') ''ENOENT: no such file or directory'')"
    by (simp add: env_defs)
  have xv: "SSHExitSocketOp_run vanished_env ''/tmp/s'' ''user@host'' [] = (Some (Success True), ?h1)"
    by (simp add: run_defs env_defs example_replies)
  have rv: "RemoveSocketFileOp_run vanished_env ''/tmp/s'' ?h1 =
        (Failure FileNotFound ''File does not exist: /tmp/s'', ?h2)"
    by (simp add: run_defs env_defs example_replies)
  have xp: "SSHExitSocketOp_run protected_env ''/tmp/s'' ''user@host'' [] = (Some (Success True), ?h1)"
    by (simp add: run_defs env_defs example_replies)
  have rp: "RemoveSocketFileOp_run protected_env ''/tmp/s'' ?h1 =
        (Failure PermissionDenied ''Permission denied: /tmp/s'', ?h2)"
    by (simp add: run_defs env_defs example_replies)
  have ok: "is_ok (Success True :: bool outcome) \<or> failure_of (Success True :: bool outcome) \<noteq> SocketNotFound"
    by simp
  have ne: "PermissionDenied \<noteq> FileNotFound" by simp
  have tm: "TearDownSocketOp_run missing_env ''/tmp/s'' ''user@host'' [] =
        (Some (Success \<lparr>exitedCleanly = False, fileRemoved = False\<rparr>), [Stat ''/tmp/s''])"
    using m TearDownSocketOp_outcomes [where e = missing_env and sock = "''/tmp/s''"
        and hid = "''user@host''" and h = "[]"
        and d = "''Control socket does not exist: /tmp/s''" and ?h1.0 = "[Stat ''/tmp/s'']"]
    by blast
  have tm': "TearDownSocketOp_run missing_env ''/tmp/s'' ''user@host'' [] =
        (Some (Success \<lparr>exitedCleanly = False, fileRemoved = False\<rparr>), [] @ [Stat ''/tmp/s''])"
    using ms TearDownSocketOp_outcomes [where e = missing_env and sock = "''/tmp/s''"
        and hid = "''user@host''" and h = "[]"
        and x = "JsError (Some ''ENOENT'') ''ENOENT: no such file or directory''"]
    by blast
  have tv: "TearDownSocketOp_run vanished_env ''/tmp/s'' ''user@host'' [] =
        (Some (Success \<lparr>exitedCleanly = (is_ok (Success True :: bool outcome) \<and> val (Success True :: bool outcome)),
                         fileRemoved = False\<rparr>), ?h2)"
    using xv rv ok TearDownSocketOp_outcomes [where e = vanished_env and sock = "''/tmp/s''"
        and hid = "''user@host''" and h = "[]" and xo = "Success True" and ?h1.0 = ?h1
        and d = "''File does not exist: /tmp/s''" and ?h2.0 = ?h2]
    by blast
  have tp: "TearDownSocketOp_run protected_env ''/tmp/s'' ''user@host'' [] =
        (Some (Failure RemoveFailed ''Permission denied: /tmp/s''), ?h2)"
    using xp rp ok ne TearDownSocketOp_outcomes [where e = protected_env and sock = "''/tmp/s''"
        and hid = "''user@host''" and h = "[]" and xo = "Success True" and ?h1.0 = ?h1
        and d = "''Permission denied: /tmp/s''" and ?h2.0 = ?h2 and f = PermissionDenied]
    by blast
  show ?thesis
    using m ms xv rv xp rp ne tm' by (simp add: tm tv tp)
qed

section \<open>Exec\<close>

lemma SSHExecOp_classify255_first_match:
  "SSHExecOp_classify255 err =
     (case first_match exec_rules err of
        Some k \<Rightarrow> Failure k err
      | None \<Rightarrow> Failure ConnectionFailed (''Exit 255: '' @ err))"
  by (simp add: SSHExecOp_classify255_def exec_rules_def any_of_def all_of_def)

lemma first_match_exec_kinds:
  "first_match exec_rules err = Some k \<Longrightarrow>
     k = SocketNotFound \<or> k = ConnectionFailed \<or> k = Timeout \<or> k = SocketDead"
  by (auto simp: exec_rules_def split: if_splits)

text \<open>
  C4. With the socket file present and the client's run ended: on exit code 255 Exec
  fails, with the kind that the first matching rule of \<open>exec_rules\<close> gives for the
  stderr text, one of \<open>SocketNotFound\<close>, \<open>ConnectionFailed\<close>, \<open>Timeout\<close> and
  \<open>SocketDead\<close>, and with \<open>ConnectionFailed\<close> and the stderr text when no rule matches;
  on any other exit code Exec succeeds with that exit code, stdout and stderr as text and
  as the bytes received.
\<close>

theorem SSHExecOp_exit_codes:
  assumes "stat_reply e h sock = None"
    and "runCommandBuffers_reply e (h @ [Stat sock]) ''ssh'' (SSHExecOp_args sock hid cmd t) = Resolved r"
  shows "(ShellResultBuffers.exitCode r = 255 \<longrightarrow>
            fst (SSHExecOp_run e sock hid cmd t h) =
              Some (case first_match exec_rules (toString e (ShellResultBuffers.stderrBuffer r)) of
                      Some k \<Rightarrow> Failure k (toString e (ShellResultBuffers.stderrBuffer r))
                    | None \<Rightarrow> Failure ConnectionFailed
                        (''Exit 255: '' @ toString e (ShellResultBuffers.stderrBuffer r)))
            \<and> (\<exists>k d. fst (SSHExecOp_run e sock hid cmd t h) = Some (Failure k d)
                  \<and> (k = SocketNotFound \<or> k = ConnectionFailed \<or> k = Timeout \<or> k = SocketDead)))
         \<and> (ShellResultBuffers.exitCode r \<noteq> 255 \<longrightarrow>
            fst (SSHExecOp_run e sock hid cmd t h) =
              Some (Success \<lparr>exitCode = ShellResultBuffers.exitCode r,
                             stdout = toString e (ShellResultBuffers.stdoutBuffer r),
                             stderr = toString e (ShellResultBuffers.stderrBuffer r),
                             stdoutBuffer = ShellResultBuffers.stdoutBuffer r,
                             stderrBuffer = ShellResultBuffers.stderrBuffer r\<rparr>))"
proof -
  let ?err = "toString e (ShellResultBuffers.stderrBuffer r)"
  have run: "fst (SSHExecOp_run e sock hid cmd t h) =
      Some (if ShellResultBuffers.exitCode r = 255 then SSHExecOp_classify255 ?err
            else Success \<lparr>exitCode = ShellResultBuffers.exitCode r,
                             stdout = toString e (ShellResultBuffers.stdoutBuffer r),
                             stderr = ?err,
                             stdoutBuffer = ShellResultBuffers.stdoutBuffer r,
                             stderrBuffer = ShellResultBuffers.stderrBuffer r\<rparr>)"
    using assms by (simp add: SSHExecOp_run_def Let_def)
  have kinds: "\<exists>k d. SSHExecOp_classify255 ?err = Failure k d
      \<and> (k = SocketNotFound \<or> k = ConnectionFailed \<or> k = Timeout \<or> k = SocketDead)"
    using first_match_exec_kinds [of ?err]
    by (cases "first_match exec_rules ?err") (simp_all add: SSHExecOp_classify255_first_match)
  show ?thesis
    using kinds by (simp add: run SSHExecOp_classify255_first_match)
qed

theorem SSHExecOp_exit_codes_witness:
  "stat_reply dead_env [] ''/tmp/s'' = None
   \<and> runCommandBuffers_reply dead_env ([] @ [Stat ''/tmp/s'']) ''ssh''
        (SSHExecOp_args ''/tmp/s'' ''user@host'' ''ls'' 30) =
       Resolved \<lparr>ShellResultBuffers.exitCode = 255, stdoutBuffer = [],
                 stderrBuffer = ascii_fromString ''Control socket connect(/tmp/s): Connection refused''\<rparr>
   \<and> fst (SSHExecOp_run dead_env ''/tmp/s'' ''user@host'' ''ls'' 30 []) =
       Some (Failure ConnectionFailed ''Control socket connect(/tmp/s): Connection refused'')
   \<and> stat_reply example_env [] ''/tmp/s'' = None
   \<and> runCommandBuffers_reply example_env ([] @ [Stat ''/tmp/s'']) ''ssh''
        (SSHExecOp_args ''/tmp/s'' ''user@host'' ''ls'' 30) =
       Resolved \<lparr>ShellResultBuffers.exitCode = 3, stdoutBuffer = ascii_fromString ''hi'',
                 stderrBuffer = []\<rparr>
   \<and> fst (SSHExecOp_run example_env ''/tmp/s'' ''user@host'' ''ls'' 30 []) =
       Some (Success \<lparr>exitCode = 3, stdout = ''hi'', stderr = [],
                      stdoutBuffer = ascii_fromString ''hi'', stderrBuffer = []\<rparr>)"
proof -
  let ?rd = "\<lparr>ShellResultBuffers.exitCode = 255, stdoutBuffer = [],
                 stderrBuffer = ascii_fromString ''Control socket connect(/tmp/s): Connection refused''\<rparr>"
  let ?ra = "\<lparr>ShellResultBuffers.exitCode = 3, stdoutBuffer = ascii_fromString ''hi'',
                 stderrBuffer = []\<rparr>"
  have d: "stat_reply dead_env [] ''/tmp/s'' = None"
    "runCommandBuffers_reply dead_env ([] @ [Stat ''/tmp/s'']) ''ssh''
        (SSHExecOp_args ''/tmp/s'' ''user@host'' ''ls'' 30) = Resolved ?rd"
    by (simp_all add: env_defs example_replies)
  have a: "stat_reply example_env [] ''/tmp/s'' = None"
    "runCommandBuffers_reply example_env ([] @ [Stat ''/tmp/s'']) ''ssh''
        (SSHExecOp_args ''/tmp/s'' ''user@host'' ''ls'' 30) = Resolved ?ra"
    by (simp_all add: env_defs example_replies)
  have fm: "first_match exec_rules ''Control socket connect(/tmp/s): Connection refused'' = Some ConnectionFailed"
    by (simp add: exec_rules_def any_of_def all_of_def)
  have ts: "toString dead_env = ascii_toString" "toString example_env = ascii_toString"
    by (simp_all add: env_defs)
  have e: "ascii_toString [] = []"
    by (simp add: ascii_toString_def)
  have xd: "fst (SSHExecOp_run dead_env ''/tmp/s'' ''user@host'' ''ls'' 30 []) =
       Some (Failure ConnectionFailed ''Control socket connect(/tmp/s): Connection refused'')"
    using SSHExecOp_exit_codes [OF d] by (simp add: ts ascii_roundtrip fm)
  have xa: "fst (SSHExecOp_run example_env ''/tmp/s'' ''user@host'' ''ls'' 30 []) =
       Some (Success \<lparr>exitCode = 3, stdout = ''hi'', stderr = [],
                      stdoutBuffer = ascii_fromString ''hi'', stderrBuffer = []\<rparr>)"
    using SSHExecOp_exit_codes [OF a] by (simp add: ts ascii_roundtrip e)
  show ?thesis
    using d a by (simp add: xd xa)
qed

end
